theory Spec2Isabelle
  imports Complex_Main "HOL-Library.Char_ord" "HOL-Library.List_Lexorder" "HOL-Library.Sublist"
begin

section \<open>Go strings\<close>

text \<open>
  Go strings are byte sequences, and so are HOL strings. The functions of package
  \<open>strings\<close> that the program calls are modelled on bytes.

  \<open>strings.Contains s substr\<close>: \<open>substr\<close> occurs in \<open>s\<close> as a contiguous run
  of bytes. \<open>strings.ContainsAny s chars\<close> and \<open>strings.Count\<close> are only called with
  ASCII characters, where a byte is a code point.
\<close>

definition Contains :: "string \<Rightarrow> string \<Rightarrow> bool" where
  "Contains s substr \<longleftrightarrow> sublist substr s"

definition ContainsAny :: "string \<Rightarrow> string \<Rightarrow> bool" where
  "ContainsAny s chars \<longleftrightarrow> list_ex (\<lambda>c. c \<in> set chars) s"

definition Count :: "string \<Rightarrow> char \<Rightarrow> int" where
  "Count s c = int (length (filter (\<lambda>b. b = c) s))"

text \<open>
  \<open>strings.ReplaceAll\<close> for a one-byte pattern: every occurrence of the byte is replaced.
\<close>

definition ReplaceAll :: "string \<Rightarrow> char \<Rightarrow> string \<Rightarrow> string" where
  "ReplaceAll s old new = concat (map (\<lambda>c. if c = old then new else [c]) s)"

text \<open>
  \<open>strings.Fields\<close> splits around runs of white space as \<open>unicode.IsSpace\<close> defines
  it. \<open>space_width s\<close> is the number of bytes of the white-space code point that starts
  \<open>s\<close>, and 0 when none does: the six ASCII spaces, U+0085 and U+00A0 (two bytes in
  UTF-8), U+1680, U+2000 to U+200A, U+2028, U+2029, U+202F, U+205F and U+3000 (three
  bytes). Every other byte, valid UTF-8 or not, belongs to a field.
\<close>

definition space_width :: "string \<Rightarrow> nat" where
  "space_width s =
     (case (map of_char (take 3 s) :: nat list) of
        [] \<Rightarrow> 0
      | b0 # bs \<Rightarrow>
          if (9 \<le> b0 \<and> b0 \<le> 13) \<or> b0 = 32 then 1
          else (case bs of
                  [] \<Rightarrow> 0
                | b1 # bs' \<Rightarrow>
                    if b0 = 0xC2 \<and> (b1 = 0x85 \<or> b1 = 0xA0) then 2
                    else (case bs' of
                            [] \<Rightarrow> 0
                          | b2 # _ \<Rightarrow>
                              if b0 = 0xE1 \<and> b1 = 0x9A \<and> b2 = 0x80 then 3
                              else if b0 = 0xE2 \<and> b1 = 0x80
                                      \<and> ((0x80 \<le> b2 \<and> b2 \<le> 0x8A) \<or> b2 = 0xA8 \<or> b2 = 0xA9 \<or> b2 = 0xAF)
                                   then 3
                              else if b0 = 0xE2 \<and> b1 = 0x81 \<and> b2 = 0x9F then 3
                              else if b0 = 0xE3 \<and> b1 = 0x80 \<and> b2 = 0x80 then 3
                              else 0)))"

text \<open>
  \<open>fields_loop k cur s\<close>: \<open>k\<close> bytes of a white-space code point are still to be
  skipped, \<open>cur\<close> is the field being read.
\<close>

fun fields_loop :: "nat \<Rightarrow> string \<Rightarrow> string \<Rightarrow> string list" where
  "fields_loop k cur [] = (if cur = [] then [] else [cur])"
| "fields_loop k cur (c # s) =
     (if 0 < k then fields_loop (k - 1) cur s
      else if 0 < space_width (c # s)
        then (if cur = [] then [] else [cur]) @ fields_loop (space_width (c # s) - 1) [] s
        else fields_loop 0 (cur @ [c]) s)"

definition Fields :: "string \<Rightarrow> string list" where
  "Fields s = fields_loop 0 [] s"

text \<open>
  \<open>strings.ToLower\<close> maps the bytes \<open>A\<close> to \<open>Z\<close> of an all-ASCII string to lower
  case. A string with a byte above 127 goes through the Unicode case tables of the Go
  library, which are the parameter \<open>unicodeLower\<close>.
\<close>

definition isASCII :: "string \<Rightarrow> bool" where
  "isASCII s \<longleftrightarrow> list_all (\<lambda>c. (of_char c :: nat) < 128) s"

definition ascii_lower :: "char \<Rightarrow> char" where
  "ascii_lower c =
     (case map_of (zip ''ABCDEFGHIJKLMNOPQRSTUVWXYZ'' ''abcdefghijklmnopqrstuvwxyz'') c of
        Some l \<Rightarrow> l
      | None \<Rightarrow> c)"

definition ToLower :: "(string \<Rightarrow> string) \<Rightarrow> string \<Rightarrow> string" where
  "ToLower unicodeLower s = (if isASCII s then map ascii_lower s else unicodeLower s)"

section \<open>Shared value types (pkg/models/message.go)\<close>

text \<open>
  \<open>Role\<close> is a Go string type with three named constants; a message read back from
  the history file can carry any string as its role, so the role stays a string.
  \<open>time.Time\<close> is kept as a clock reading; the layouts that print it belong to the Go
  library and are parameters where they are needed.
\<close>

type_synonym Role = string
type_synonym Time = int

definition RoleSystem :: Role where "RoleSystem = ''system''"
definition RoleUser :: Role where "RoleUser = ''user''"
definition RoleAssistant :: Role where "RoleAssistant = ''assistant''"

record Message =
  Role :: Role
  Content :: string
  Timestamp :: Time

text \<open>
  A \<open>float64\<close> is a finite number, an infinity or NaN; \<open>x > 0\<close> is false for NaN.
  The conversion \<open>float32(x)\<close> rounds; its result is kept as the conversion applied
  to \<open>x\<close>.
\<close>

datatype float64 = Finite real | PosInf | NegInf | NaN

fun gt_zero :: "float64 \<Rightarrow> bool" where
  "gt_zero (Finite x) = (0 < x)"
| "gt_zero PosInf = True"
| "gt_zero NegInf = False"
| "gt_zero NaN = False"

datatype float32 = float32 float64

record ChatRequest =
  Messages :: "Message list"
  Temperature :: float64
  MaxTokens :: int
  Stream :: bool

text \<open>A Go \<open>error\<close> is kept as its message; \<open>None\<close> is the nil error.\<close>

record StreamChunk =
  chunk_Content :: string
  Done :: bool
  Error :: "string option"

section \<open>The provider registry (package registry)\<close>

text \<open>
  The registry stores interface values that point to provider objects. Of a provider the
  registry only ever asks \<open>Name()\<close> and \<open>IsAvailable()\<close>; \<open>addr\<close> is the
  address of the object, which is what "the same instance" compares.
\<close>

record Provider =
  addr :: nat
  Name :: string
  IsAvailable :: bool

record Metadata =
  meta_Name :: string
  DisplayName :: string
  Description :: string
  RequiresAPI :: bool
  DefaultURL :: string
  EnvVarKey :: string
  EnvVarModel :: string
  Icon :: string

record Registry =
  providers :: "string \<rightharpoonup> Provider"
  metadata :: "string \<rightharpoonup> Metadata"

datatype registry_error =
  AlreadyRegistered string
  | ProviderNotFound string
  | MetadataNotFound string

definition New :: Registry where
  "New = \<lparr>providers = Map.empty, metadata = Map.empty\<rparr>"

text \<open>
  \<open>Register\<close> and \<open>Get\<close> run under the registry's lock; each is one atomic step from a
  registry state to a result and the next state.
\<close>

definition Register :: "Registry \<Rightarrow> Provider \<Rightarrow> Metadata \<Rightarrow> registry_error option \<times> Registry" where
  "Register r provider md =
     (let name = Name provider in
      case providers r name of
        Some _ \<Rightarrow> (Some (AlreadyRegistered name), r)
      | None \<Rightarrow>
          (None, r\<lparr>providers := (providers r)(name \<mapsto> provider),
                   metadata := (metadata r)(name \<mapsto> md)\<rparr>))"

definition Get :: "Registry \<Rightarrow> string \<Rightarrow> (registry_error + Provider) \<times> Registry" where
  "Get r name =
     (case providers r name of
        None \<Rightarrow> (Inl (ProviderNotFound name), r)
      | Some provider \<Rightarrow> (Inr provider, r))"

definition GetMetadata :: "Registry \<Rightarrow> string \<Rightarrow> (registry_error + Metadata) \<times> Registry" where
  "GetMetadata r name =
     (case metadata r name of
        None \<Rightarrow> (Inl (MetadataNotFound name), r)
      | Some md \<Rightarrow> (Inr md, r))"

text \<open>
  Go leaves the order in which \<open>range\<close> visits a map unspecified, and it changes from
  one loop to the next. The order of one loop is the argument \<open>visit\<close>: the keys of the
  map, each once. \<open>sort.Strings\<close> sorts by the bytewise order of Go strings, which is the
  lexicographic order of byte lists.
\<close>

definition List_names :: "Registry \<Rightarrow> string list \<Rightarrow> string list" where
  "List_names r visit = sort (foldl (\<lambda>names name. names @ [name]) [] visit)"

definition ListAvailable :: "Registry \<Rightarrow> string list \<Rightarrow> string list" where
  "ListAvailable r visit =
     sort (foldl (\<lambda>available name.
                    case providers r name of
                      Some provider \<Rightarrow>
                        if IsAvailable provider then available @ [name] else available
                    | None \<Rightarrow> available) [] visit)"

text \<open>A visiting order of the registry's provider map.\<close>

definition range_order :: "Registry \<Rightarrow> string list \<Rightarrow> bool" where
  "range_order r visit \<longleftrightarrow> distinct visit \<and> set visit = dom (providers r)"

section \<open>Providers (package providers)\<close>

subsection \<open>Runtime configuration and model aliases\<close>

text \<open>
  \<open>providers.Config\<close>. Its \<open>Extra\<close> map is read by no provider and is left out.
\<close>

record Config =
  APIKey :: string
  BaseURL :: string
  Model :: string
  cfg_Temperature :: float64
  cfg_MaxTokens :: int
  Timeout :: int

definition groqModels :: "string \<rightharpoonup> string" where
  "groqModels = map_of
     [(''llama-70b'', ''llama-3.3-70b-versatile''),
      (''llama-8b'', ''llama-3.1-8b-instant''),
      (''mixtral'', ''mixtral-8x7b-32768''),
      (''gemma-7b'', ''gemma2-9b-it'')]"

definition togetherModels :: "string \<rightharpoonup> string" where
  "togetherModels = map_of
     [(''llama-70b'', ''meta-llama/Llama-3.3-70B-Instruct-Turbo''),
      (''llama-70b-free'', ''meta-llama/Llama-3.3-70B-Instruct-Turbo-Free''),
      (''deepseek'', ''deepseek-ai/DeepSeek-R1-Distill-Llama-70B''),
      (''qwen-72b'', ''Qwen/Qwen2.5-72B-Instruct-Turbo'')]"

definition sambaModels :: "string \<rightharpoonup> string" where
  "sambaModels = map_of
     [(''llama-70b'', ''Meta-Llama-3.3-70B-Instruct''),
      (''llama-8b'', ''Meta-Llama-3.1-8B-Instruct''),
      (''qwen-72b'', ''Qwen2.5-72B-Instruct'')]"

definition geminiModels :: "string \<rightharpoonup> string" where
  "geminiModels = map_of
     [(''flash'', ''gemini-2.0-flash-exp''),
      (''flash-lite'', ''gemini-2.0-flash-lite''),
      (''pro'', ''gemini-2.5-pro-exp-03-25'')]"

text \<open>
  \<open>GroqProvider\<close>, \<open>TogetherProvider\<close> and \<open>SambaProvider\<close> are three structs with
  the same fields: the client handle of the OpenAI-compatible library, the model and the
  availability flag. The handle is opaque and is left out.
\<close>

record OpenAIProvider =
  model :: string
  isAvailable :: bool

type_synonym GroqProvider = OpenAIProvider
type_synonym TogetherProvider = OpenAIProvider
type_synonym SambaProvider = OpenAIProvider

record GenerativeModel =
  gm_name :: string
  gm_temperature :: float32

text \<open>
  \<open>GeminiProvider\<close>: \<open>has_client\<close> says that the client pointer is not nil,
  \<open>generative_model\<close> is the model handle it made (nil until a client exists).
\<close>

record GeminiProvider =
  has_client :: bool
  generative_model :: "GenerativeModel option"
  modelName :: string
  gemini_isAvailable :: bool

text \<open>\<open>Initialize\<close> returns its error (\<open>None\<close> is nil) and the provider it leaves.\<close>

definition groq_Initialize :: "GroqProvider \<Rightarrow> Config \<Rightarrow> string option \<times> GroqProvider" where
  "groq_Initialize g cfg =
     (if Model cfg \<noteq> '''' then
        (case groqModels (Model cfg) of
           Some fullModel \<Rightarrow> (None, g\<lparr>model := fullModel\<rparr>)
         | None \<Rightarrow> (None, g\<lparr>model := Model cfg\<rparr>))
      else (None, g))"

definition together_Initialize :: "TogetherProvider \<Rightarrow> Config \<Rightarrow> string option \<times> TogetherProvider" where
  "together_Initialize t cfg =
     (if Model cfg \<noteq> '''' then
        (case togetherModels (Model cfg) of
           Some fullModel \<Rightarrow> (None, t\<lparr>model := fullModel\<rparr>)
         | None \<Rightarrow> (None, t\<lparr>model := Model cfg\<rparr>))
      else (None, t))"

definition samba_Initialize :: "SambaProvider \<Rightarrow> Config \<Rightarrow> string option \<times> SambaProvider" where
  "samba_Initialize s cfg =
     (if Model cfg \<noteq> '''' then
        (case sambaModels (Model cfg) of
           Some fullModel \<Rightarrow> (None, s\<lparr>model := fullModel\<rparr>)
         | None \<Rightarrow> (None, s\<lparr>model := Model cfg\<rparr>))
      else (None, s))"

definition gemini_Initialize :: "GeminiProvider \<Rightarrow> Config \<Rightarrow> string option \<times> GeminiProvider" where
  "gemini_Initialize g cfg =
     (if Model cfg \<noteq> '''' then
        (let g1 = (case geminiModels (Model cfg) of
                     Some fullModel \<Rightarrow> g\<lparr>modelName := fullModel\<rparr>
                   | None \<Rightarrow> g\<lparr>modelName := Model cfg\<rparr>);
             g2 = (if has_client g1
                   then g1\<lparr>generative_model :=
                          Some \<lparr>gm_name = modelName g1,
                                gm_temperature = float32 (cfg_Temperature cfg)\<rparr>\<rparr>
                   else g1)
         in (None, g2))
      else (None, g))"

subsection \<open>Backend requests\<close>

text \<open>
  The request of the OpenAI-compatible library. \<open>SendMessage\<close> and \<open>StreamMessage\<close> of
  groq, together and samba build it with the same statements; \<open>SendMessage\<close> leaves
  \<open>Stream\<close> at its zero value.
\<close>

record ChatCompletionMessage =
  oa_Role :: string
  oa_Content :: string

record ChatCompletionRequest =
  oa_Model :: string
  oa_Messages :: "ChatCompletionMessage list"
  oa_Temperature :: float32
  oa_MaxTokens :: int
  oa_Stream :: bool

definition openai_messages :: "Message list \<Rightarrow> ChatCompletionMessage list" where
  "openai_messages msgs = map (\<lambda>msg. \<lparr>oa_Role = Role msg, oa_Content = Content msg\<rparr>) msgs"

definition SendMessage_request :: "OpenAIProvider \<Rightarrow> ChatRequest \<Rightarrow> ChatCompletionRequest" where
  "SendMessage_request g req =
     \<lparr>oa_Model = model g,
      oa_Messages = openai_messages (Messages req),
      oa_Temperature = float32 (Temperature req),
      oa_MaxTokens = MaxTokens req,
      oa_Stream = False\<rparr>"

definition StreamMessage_request :: "OpenAIProvider \<Rightarrow> ChatRequest \<Rightarrow> ChatCompletionRequest" where
  "StreamMessage_request g req =
     \<lparr>oa_Model = model g,
      oa_Messages = openai_messages (Messages req),
      oa_Temperature = float32 (Temperature req),
      oa_MaxTokens = MaxTokens req,
      oa_Stream = True\<rparr>"

text \<open>
  The local backend's request. \<open>Options\<close> is a Go map that starts nil (\<open>None\<close>);
  its values are a float or an int.
\<close>

record OllamaProvider =
  ollama_model :: string
  baseURL :: string
  ollama_isAvailable :: bool

datatype option_value = OptFloat float64 | OptInt int

record api_Message =
  api_Role :: string
  api_Content :: string

record api_ChatRequest =
  api_Model :: string
  api_Messages :: "api_Message list"
  api_Stream :: bool
  Options :: "(string \<rightharpoonup> option_value) option"

definition ollama_messages :: "Message list \<Rightarrow> api_Message list" where
  "ollama_messages msgs = map (\<lambda>msg. \<lparr>api_Role = Role msg, api_Content = Content msg\<rparr>) msgs"

text \<open>
  The request that \<open>OllamaProvider.SendMessage\<close> (\<open>stream = False\<close>) and
  \<open>OllamaProvider.StreamMessage\<close> (\<open>stream = True\<close>) prepare, by the same statements.
\<close>

definition ollama_chat_request :: "bool \<Rightarrow> OllamaProvider \<Rightarrow> ChatRequest \<Rightarrow> api_ChatRequest" where
  "ollama_chat_request stream p req =
     (let chatReq0 = \<lparr>api_Model = ollama_model p,
                      api_Messages = ollama_messages (Messages req),
                      api_Stream = stream,
                      Options = None\<rparr>;
          chatReq1 = (if gt_zero (Temperature req)
                      then chatReq0\<lparr>Options := Some [''temperature'' \<mapsto> OptFloat (Temperature req)]\<rparr>
                      else chatReq0);
          chatReq2 = (if 0 < MaxTokens req
                      then (let opts = (case Options chatReq1 of None \<Rightarrow> Map.empty | Some m \<Rightarrow> m)
                            in chatReq1\<lparr>Options := Some (opts(''num_predict'' \<mapsto> OptInt (MaxTokens req)))\<rparr>)
                      else chatReq1)
      in chatReq2)"

text \<open>The value a request carries for an option; \<open>None\<close> when the option is not sent.\<close>

definition sent_option :: "api_ChatRequest \<Rightarrow> string \<Rightarrow> option_value option" where
  "sent_option r key = (case Options r of None \<Rightarrow> None | Some m \<Rightarrow> m key)"

subsection \<open>The chunk channel\<close>

text \<open>
  Every \<open>StreamMessage\<close> makes a channel of capacity 10 and starts one goroutine that
  sends on it and closes it on return. The state of the channel that matters to the
  producer is the list \<open>sent\<close> of chunks it has put on the channel, oldest first. The
  consumer either receives until the channel is closed (\<open>Drains\<close>) or stops receiving
  for good after some number of chunks (\<open>Abandons\<close>). A send completes when the buffer
  has room or the consumer will still take a chunk: with \<open>Abandons k\<close>, the first
  \<open>k + 10\<close> sends complete and a later one never does.
\<close>

datatype consumer = Drains | Abandons nat

definition capacity :: nat where
  "capacity = 10"

definition can_send :: "consumer \<Rightarrow> StreamChunk list \<Rightarrow> bool" where
  "can_send c sent = (case c of Drains \<Rightarrow> True | Abandons k \<Rightarrow> length sent < k + capacity)"

text \<open>
  How a producer goroutine ends: it returned and the deferred close ran (\<open>Closed\<close>); it is
  suspended for ever in a channel send (\<open>Blocked\<close>); the transport has no further frame
  and the goroutine is suspended in the transport's read (\<open>Waiting\<close>); it panicked
  (\<open>Panicked\<close>). Each carries the chunks sent.
\<close>

datatype outcome =
  Closed "StreamChunk list"
  | Blocked "StreamChunk list"
  | Waiting "StreamChunk list"
  | Panicked "StreamChunk list"

fun sent_chunks :: "outcome \<Rightarrow> StreamChunk list" where
  "sent_chunks (Closed sent) = sent"
| "sent_chunks (Blocked sent) = sent"
| "sent_chunks (Waiting sent) = sent"
| "sent_chunks (Panicked sent) = sent"

text \<open>What the consumer receives of them.\<close>

definition delivered :: "consumer \<Rightarrow> outcome \<Rightarrow> StreamChunk list" where
  "delivered c out =
     (case c of Drains \<Rightarrow> sent_chunks out | Abandons k \<Rightarrow> take k (sent_chunks out))"

definition content_chunk :: "string \<Rightarrow> StreamChunk" where
  "content_chunk content = \<lparr>chunk_Content = content, Done = False, Error = None\<rparr>"

definition done_chunk :: StreamChunk where
  "done_chunk = \<lparr>chunk_Content = '''', Done = True, Error = None\<rparr>"

definition error_chunk :: "string \<Rightarrow> StreamChunk" where
  "error_chunk err = \<lparr>chunk_Content = '''', Done = True, Error = Some err\<rparr>"

text \<open>The plain send \<open>chunkChan <- x\<close> followed by \<open>return\<close>.\<close>

definition send_return :: "consumer \<Rightarrow> StreamChunk list \<Rightarrow> StreamChunk \<Rightarrow> outcome" where
  "send_return c sent x = (if can_send c sent then Closed (sent @ [x]) else Blocked sent)"

subsection \<open>The goroutine of groq, together and samba\<close>

text \<open>
  \<open>stream.Recv()\<close> returns a response with its choices (each a delta text) or an error.
  The three providers run the same loop over the results of \<open>Recv\<close>.
\<close>

datatype recv_result = Response "string list" | RecvError string

fun openai_stream_goroutine :: "consumer \<Rightarrow> recv_result list \<Rightarrow> StreamChunk list \<Rightarrow> outcome" where
  "openai_stream_goroutine c [] sent = Waiting sent"
| "openai_stream_goroutine c (RecvError err # _) sent =
     (if err = ''EOF'' \<or> Contains err ''EOF''
      then send_return c sent done_chunk
      else send_return c sent (error_chunk err))"
| "openai_stream_goroutine c (Response choices # rest) sent =
     (case choices of
        [] \<Rightarrow> openai_stream_goroutine c rest sent
      | content # _ \<Rightarrow>
          if can_send c sent
          then openai_stream_goroutine c rest (sent @ [content_chunk content])
          else Blocked sent)"

subsection \<open>The goroutine of gemini\<close>

text \<open>
  \<open>iter.Next()\<close> returns a response, \<open>iterator.Done\<close> or another error. A response
  has candidates; a candidate's \<open>Content\<close> is a pointer (\<open>None\<close> is nil) to parts, each
  printed with \<open>%v\<close>. The loop reads \<open>resp.Candidates[0].Content.Parts\<close> unchecked.
\<close>

datatype iter_result =
  IterResponse "string list option list"
  | IterDone
  | IterError string

fun send_parts :: "consumer \<Rightarrow> string list \<Rightarrow> StreamChunk list \<Rightarrow> bool \<times> StreamChunk list" where
  "send_parts c [] sent = (True, sent)"
| "send_parts c (part # parts) sent =
     (if can_send c sent then send_parts c parts (sent @ [content_chunk part]) else (False, sent))"

fun gemini_stream_goroutine :: "consumer \<Rightarrow> iter_result list \<Rightarrow> StreamChunk list \<Rightarrow> outcome" where
  "gemini_stream_goroutine c [] sent = Waiting sent"
| "gemini_stream_goroutine c (IterDone # _) sent = send_return c sent done_chunk"
| "gemini_stream_goroutine c (IterError err # _) sent = send_return c sent (error_chunk err)"
| "gemini_stream_goroutine c (IterResponse [] # _) sent = Panicked sent"
| "gemini_stream_goroutine c (IterResponse (None # _) # _) sent = Panicked sent"
| "gemini_stream_goroutine c (IterResponse (Some parts # _) # rest) sent =
     (if fst (send_parts c parts sent)
      then gemini_stream_goroutine c rest (snd (send_parts c parts sent))
      else Blocked (snd (send_parts c parts sent)))"

subsection \<open>The goroutine of ollama\<close>

text \<open>
  Every send of the ollama goroutine is a \<open>select\<close> between the send and \<open>ctx.Done()\<close>.
  \<open>cancelled\<close> says that the context is cancelled. When both cases are ready Go picks
  one at random; \<open>pick i\<close> is the choice at the \<open>i\<close>-th \<open>select\<close> the goroutine runs.
\<close>

datatype select_case = SendCase | DoneCase

record scheduling =
  consumer :: consumer
  cancelled :: bool
  pick :: "nat \<Rightarrow> select_case"

datatype select_result = Sent "StreamChunk list" | CtxDone | Stuck

definition select_send :: "scheduling \<Rightarrow> nat \<Rightarrow> StreamChunk list \<Rightarrow> StreamChunk \<Rightarrow> select_result" where
  "select_send env i sent x =
     (if can_send (consumer env) sent \<and> cancelled env then
        (case pick env i of SendCase \<Rightarrow> Sent (sent @ [x]) | DoneCase \<Rightarrow> CtxDone)
      else if can_send (consumer env) sent then Sent (sent @ [x])
      else if cancelled env then CtxDone
      else Stuck)"

definition ctx_Err :: string where
  "ctx_Err = ''context canceled''"

text \<open>
  \<open>client.Chat\<close> calls the callback on each response of the backend (its text and its
  \<open>Done\<close> flag) in order and returns the first error a callback returns; after the last
  response it returns \<open>final\<close>, the transport's own result. It returns its error, the
  number of selects run and the chunks sent, unless a callback never returns.
\<close>

datatype chat_end =
  Returned "string option" nat "StreamChunk list"
  | Suspended "StreamChunk list"

definition response_chunk :: "string \<times> bool \<Rightarrow> StreamChunk" where
  "response_chunk resp = \<lparr>chunk_Content = fst resp, Done = snd resp, Error = None\<rparr>"

fun client_Chat :: "scheduling \<Rightarrow> (string \<times> bool) list \<Rightarrow> string option \<Rightarrow> nat \<Rightarrow> StreamChunk list \<Rightarrow> chat_end" where
  "client_Chat env [] final i sent = Returned final i sent"
| "client_Chat env (resp # rest) final i sent =
     (case select_send env i sent (response_chunk resp) of
        Sent sent' \<Rightarrow> client_Chat env rest final (Suc i) sent'
      | CtxDone \<Rightarrow> Returned (Some ctx_Err) (Suc i) sent
      | Stuck \<Rightarrow> Suspended sent)"

definition ollama_stream_goroutine :: "scheduling \<Rightarrow> (string \<times> bool) list \<Rightarrow> string option \<Rightarrow> outcome" where
  "ollama_stream_goroutine env responses final =
     (case client_Chat env responses final 0 [] of
        Suspended sent \<Rightarrow> Blocked sent
      | Returned None _ sent \<Rightarrow> Closed sent
      | Returned (Some err) i sent \<Rightarrow>
          (case select_send env i sent (error_chunk (''ollama streaming error: '' @ err)) of
             Sent sent' \<Rightarrow> Closed sent'
           | CtxDone \<Rightarrow> Closed sent
           | Stuck \<Rightarrow> Blocked sent))"

text \<open>
  The transport of gemini comes to an end: the iterator reports \<open>Done\<close> or an error,
  and every response before that has a first candidate with content.
\<close>

fun iter_ends :: "iter_result list \<Rightarrow> bool" where
  "iter_ends [] = False"
| "iter_ends (IterDone # _) = True"
| "iter_ends (IterError _ # _) = True"
| "iter_ends (IterResponse (Some _ # _) # rest) = iter_ends rest"
| "iter_ends (IterResponse _ # _) = False"

text \<open>
  The shape the stream contract asks of a chunk sequence: exactly one chunk has
  \<open>Done\<close> set, and it is the last.
\<close>

definition one_done_last :: "StreamChunk list \<Rightarrow> bool" where
  "one_done_last cs \<longleftrightarrow> length (filter Done cs) = 1 \<and> cs \<noteq> [] \<and> Done (last cs)"

section \<open>The interactive session (package chat)\<close>

text \<open>
  The fields of \<open>config.Config\<close> that the session and the shell mode read.
\<close>

record AppConfig =
  app_Temperature :: float64
  app_MaxTokens :: int
  Verbose :: bool
  OutputFormat :: string

text \<open>
  The output sink is the sequence of calls that write to the terminal, in order:
  \<open>fmt.Print\<close>, \<open>fmt.Println()\<close> and the functions of package \<open>ui\<close>.
\<close>

datatype ui_event =
  Print string
  | Println
  | PrintAssistantPrefix string
  | PrintMetrics int nat
  | PrintError string

record Session =
  messages :: "Message list"
  currentModel :: string
  config :: AppConfig
  sink :: "ui_event list"

text \<open>
  The readings of the clock during one \<open>processMessage\<close>: \<open>time.Now()\<close> for the user
  message, \<open>time.Since(start)\<close> after the stream, \<open>time.Now()\<close> for the assistant
  message.
\<close>

record clock =
  now_user :: Time
  since_start :: int
  now_assistant :: Time

text \<open>
  The loop \<open>for chunk := range streamChan\<close> over the chunks the channel delivers before
  it is closed. It returns at the first chunk that carries an error; otherwise it prints
  the chunk, appends it to \<open>fullResponse\<close> and counts its fields.
\<close>

fun receive_chunks :: "StreamChunk list \<Rightarrow> string \<Rightarrow> nat \<Rightarrow> ui_event list
    \<Rightarrow> string option \<times> string \<times> nat \<times> ui_event list" where
  "receive_chunks [] fullResponse tokenCount out = (None, fullResponse, tokenCount, out)"
| "receive_chunks (chunk # rest) fullResponse tokenCount out =
     (case Error chunk of
        Some err \<Rightarrow> (Some (''stream error: '' @ err), fullResponse, tokenCount, out)
      | None \<Rightarrow>
          receive_chunks rest
            (fullResponse @ chunk_Content chunk)
            (tokenCount + length (Fields (chunk_Content chunk)))
            (out @ [Print (chunk_Content chunk)]))"

definition user_message :: "clock \<Rightarrow> string \<Rightarrow> Message" where
  "user_message clk input = \<lparr>Role = RoleUser, Content = input, Timestamp = now_user clk\<rparr>"

definition turn_request :: "Session \<Rightarrow> ChatRequest" where
  "turn_request s =
     \<lparr>Messages = messages s,
      Temperature = app_Temperature (config s),
      MaxTokens = app_MaxTokens (config s),
      Stream = True\<rparr>"

text \<open>
  \<open>Session.processMessage\<close>. The provider's \<open>StreamMessage\<close> is the parameter
  \<open>StreamMessage\<close>: for a request it gives the error it returns at once (\<open>Inl\<close>), or
  the chunks its channel delivers. The result is the error returned and the session left.
\<close>

definition processMessage ::
    "(ChatRequest \<Rightarrow> string + StreamChunk list) \<Rightarrow> clock \<Rightarrow> Session \<Rightarrow> string
      \<Rightarrow> string option \<times> Session" where
  "processMessage StreamMessage clk s input =
     (let s1 = s\<lparr>messages := messages s @ [user_message clk input]\<rparr>;
          req = turn_request s1;
          s2 = s1\<lparr>sink := sink s1 @ [PrintAssistantPrefix (currentModel s1)]\<rparr>
      in case StreamMessage req of
           Inl err \<Rightarrow> (Some (''failed to stream message: '' @ err), s2)
         | Inr chunks \<Rightarrow>
             (case receive_chunks chunks [] 0 (sink s2) of
                (Some err, _, _, out) \<Rightarrow> (Some err, s2\<lparr>sink := out\<rparr>)
              | (None, fullResponse, tokenCount, out) \<Rightarrow>
                  (let assistantMsg = \<lparr>Role = RoleAssistant, Content = fullResponse,
                                        Timestamp = now_assistant clk\<rparr>
                   in (None,
                       s2\<lparr>messages := messages s2 @ [assistantMsg],
                          sink := out @ (if Verbose (config s2)
                                           then [PrintMetrics (since_start clk) tokenCount]
                                           else [Println])\<rparr>))))"

text \<open>
  The last statement of the body of the loop of \<open>Session.Start\<close>: the message is
  processed, an error is printed, and the loop goes on to its next iteration either way.
\<close>

datatype loop_control = NextIteration | LeaveLoop

definition Start_process ::
    "(ChatRequest \<Rightarrow> string + StreamChunk list) \<Rightarrow> clock \<Rightarrow> Session \<Rightarrow> string
      \<Rightarrow> loop_control \<times> Session" where
  "Start_process StreamMessage clk s input =
     (case processMessage StreamMessage clk s input of
        (Some err, s') \<Rightarrow> (NextIteration, s'\<lparr>sink := sink s' @ [PrintError err]\<rparr>)
      | (None, s') \<Rightarrow> (NextIteration, s'))"

section \<open>Conversation export (package history)\<close>

record Conversation =
  ID :: string
  conv_Provider :: string
  conv_Model :: string
  conv_Messages :: "Message list"
  StartTime :: Time
  EndTime :: Time
  TokensUsed :: int
  Summary :: string

text \<open>
  The time formatting of the Go library: \<open>Format layout t\<close> is \<open>t.Format(layout)\<close>,
  and \<open>RoundedDuration e s\<close> is the text \<open>%s\<close> prints for
  \<open>e.Sub(s).Round(time.Second)\<close>.
\<close>

record time_format =
  Format :: "string \<Rightarrow> Time \<Rightarrow> string"
  RoundedDuration :: "Time \<Rightarrow> Time \<Rightarrow> string"

definition markdown_role :: "Message \<Rightarrow> string" where
  "markdown_role msg =
     (if Role msg = RoleAssistant then ''Assistant''
      else if Role msg = RoleSystem then ''System''
      else ''User'')"

definition text_role :: "Message \<Rightarrow> string" where
  "text_role msg =
     (if Role msg = RoleAssistant then ''Assistant''
      else if Role msg = RoleSystem then ''System''
      else ''You'')"

text \<open>The \<open>strings.Builder\<close> is the string written so far; each loop folds over the messages.\<close>

definition exportMarkdown :: "time_format \<Rightarrow> Conversation \<Rightarrow> string" where
  "exportMarkdown tf conv =
     (let sb0 = ''# Conversation with '' @ conv_Provider conv @ ''\<newline>\<newline>'';
          sb1 = sb0 @ ''**Model:** '' @ conv_Model conv @ ''\<newline>'';
          sb2 = sb1 @ ''**Date:** '' @ Format tf ''2006-01-02 15:04:05'' (StartTime conv) @ ''\<newline>'';
          sb3 = sb2 @ ''**Duration:** '' @ RoundedDuration tf (EndTime conv) (StartTime conv)
                    @ ''\<newline>\<newline>'';
          sb4 = sb3 @ ''---\<newline>\<newline>''
      in foldl (\<lambda>sb msg. sb @ (''## '' @ markdown_role msg @ ''\<newline>\<newline>'')
                             @ Content msg @ ''\<newline>\<newline>'')
           sb4 (conv_Messages conv))"

definition exportText :: "time_format \<Rightarrow> Conversation \<Rightarrow> string" where
  "exportText tf conv =
     (let sb0 = ''Conversation with '' @ conv_Provider conv @ '' ('' @ conv_Model conv @ '')\<newline>'';
          sb1 = sb0 @ ''Date: '' @ Format tf ''2006-01-02 15:04:05'' (StartTime conv) @ ''\<newline>'';
          sb2 = sb1 @ replicate 60 (CHR ''='');
          sb3 = sb2 @ ''\<newline>\<newline>''
      in foldl (\<lambda>sb msg. sb @ (''['' @ Format tf ''15:04:05'' (Timestamp msg) @ ''] ''
                                   @ text_role msg @ '':\<newline>'')
                             @ Content msg @ ''\<newline>\<newline>'')
           sb3 (conv_Messages conv))"

text \<open>
  \<open>occur_in_order cs s\<close>: the strings \<open>cs\<close> occur in \<open>s\<close> verbatim, one after the
  other without overlap, in the order of the list. \<open>i\<close> is where an occurrence starts.
\<close>

primrec occur_in_order :: "string list \<Rightarrow> string \<Rightarrow> bool" where
  "occur_in_order [] s = True"
| "occur_in_order (c # cs) s =
     list_ex (\<lambda>i. take (length c) (drop i s) = c \<and> occur_in_order cs (drop (i + length c) s))
       [0..<Suc (length s)]"

section \<open>Prompt assessment (package assessment)\<close>

record Criterion =
  crit_Name :: string
  Score :: int
  MaxScore :: int
  Status :: string
  crit_Description :: string
  Suggestions :: "string list"

record Assessment =
  Criteria :: "Criterion list"
  OverallScore :: int
  OverallRating :: string
  TotalIssues :: int
  Recommendations :: "string list"

text \<open>The struct literal every check starts from; the other fields have their zero value.\<close>

definition new_criterion :: "string \<Rightarrow> Criterion" where
  "new_criterion name =
     \<lparr>crit_Name = name, Score = 0, MaxScore = 10, Status = '''', crit_Description = '''',
      Suggestions = []\<rparr>"

text \<open>
  The assignments of one branch of a check: the score, the status, the description, and
  the suggestions it appends.
\<close>

definition graded :: "Criterion \<Rightarrow> int \<Rightarrow> string \<Rightarrow> string \<Rightarrow> string list \<Rightarrow> Criterion" where
  "graded criterion score status description suggestions =
     criterion\<lparr>Score := score, Status := status, crit_Description := description,
               Suggestions := Suggestions criterion @ suggestions\<rparr>"

text \<open>The counting loop over a list of markers, and the loop that stops at the first hit.\<close>

definition count_markers :: "string \<Rightarrow> string list \<Rightarrow> int" where
  "count_markers lowerPrompt markers =
     foldl (\<lambda>count marker. if Contains lowerPrompt marker then count + 1 else count) 0 markers"

definition has_marker :: "string \<Rightarrow> string list \<Rightarrow> bool" where
  "has_marker lowerPrompt markers = list_ex (\<lambda>marker. Contains lowerPrompt marker) markers"

definition wordCount_of :: "string \<Rightarrow> int" where
  "wordCount_of prompt = int (length (Fields prompt))"

definition checkClarity :: "string \<Rightarrow> Criterion" where
  "checkClarity prompt =
     (let criterion = new_criterion ''Clarity'';
          len = int (length prompt);
          wordCount = wordCount_of prompt;
          hasPunctuation = ContainsAny prompt ''.?!'';
          hasUndefinedQuotes = (Count prompt (CHR 0x22) \<ge> 2 \<or> Count prompt (CHR 0x27) \<ge> 2)
      in if len < 10 then
           graded criterion 1 ''Poor'' ''Prompt is too short to be clear''
             [''Expand your prompt with more details'']
         else if len < 30 \<or> wordCount < 5 then
           graded criterion 3 ''Poor'' ''Prompt is vague and needs more detail''
             [''Add specific details about what you want'']
         else if \<not> hasPunctuation \<and> wordCount < 15 then
           graded criterion 5 ''Fair'' ''Prompt could be clearer with better structure''
             [''Use proper punctuation and complete sentences'']
         else if hasUndefinedQuotes then
           graded criterion 6 ''Good'' ''Clear but has undefined terms in quotes''
             [''Define terms in quotes or remove ambiguous references'']
         else if wordCount < 20 then
           graded criterion 7 ''Good'' ''Prompt is clear but could be more detailed'' []
         else if wordCount < 40 then
           graded criterion 8 ''Very Good'' ''Clear and well-articulated prompt'' []
         else
           graded criterion 10 ''Excellent'' ''Exceptionally clear with unambiguous intent'' [])"

definition purposeMarkers :: "string list" where
  "purposeMarkers =
     [''so that'', ''in order to'', ''because'', ''to help'', ''my goal'',
      ''i need'', ''i want to'', ''the purpose'', ''this will'', ''for my'',
      ''i'm trying to'', ''i'm working on'', ''for the purpose of'']"

definition outcomeMarkers :: "string list" where
  "outcomeMarkers =
     [''deliverable'', ''output'', ''result'', ''decision'', ''action'', ''plan'',
      ''strategy'', ''solution'', ''answer to'', ''help me decide'', ''determine'']"

definition applicationMarkers :: "string list" where
  "applicationMarkers =
     [''project'', ''task'', ''work'', ''assignment'', ''problem'', ''use case'',
      ''scenario'', ''situation'', ''implement'', ''apply'', ''build'']"

definition checkRelevance :: "(string \<Rightarrow> string) \<Rightarrow> string \<Rightarrow> Criterion" where
  "checkRelevance unicodeLower prompt =
     (let criterion = new_criterion ''Relevance'';
          lowerPrompt = ToLower unicodeLower prompt;
          purposeCount = count_markers lowerPrompt purposeMarkers;
          outcomeCount = count_markers lowerPrompt outcomeMarkers;
          applicationCount = count_markers lowerPrompt applicationMarkers;
          totalRelevance = purposeCount + outcomeCount + applicationCount
      in if totalRelevance = 0 then
           graded criterion 3 ''Poor'' ''No clear goal or practical outcome specified''
             [''Add 'so that...' or explain why you need this information'']
         else if purposeCount > 0 \<and> totalRelevance = 1 then
           graded criterion 6 ''Good'' ''Purpose mentioned but outcome unclear''
             [''Link to a specific decision or deliverable'']
         else if outcomeCount > 0 \<and> totalRelevance \<le> 2 then
           graded criterion 7 ''Good'' ''Practical outcome identified'' []
         else if totalRelevance = 3 then
           graded criterion 8 ''Very Good'' ''Clear goal with practical application'' []
         else if totalRelevance \<ge> 4 then
           graded criterion 10 ''Excellent''
             ''Explicitly linked to decision, deliverable, or actionable outcome'' []
         else
           graded criterion 5 ''Fair'' ''Some relevance but goal not explicit''
             [''Clarify the practical goal or outcome you're seeking''])"

definition actionVerbs :: "string list" where
  "actionVerbs =
     [''explain'', ''write'', ''create'', ''analyze'', ''describe'', ''compare'', ''list'',
      ''summarize'', ''generate'', ''translate'', ''build'', ''design'', ''implement'']"

definition specificityMarkers :: "string list" where
  "specificityMarkers =
     [''specific'', ''detailed'', ''particular'', ''exactly'', ''precisely'', ''how many'',
      ''which'', ''what type'']"

definition checkSpecificity :: "(string \<Rightarrow> string) \<Rightarrow> string \<Rightarrow> Criterion" where
  "checkSpecificity unicodeLower prompt =
     (let criterion = new_criterion ''Specificity'';
          lowerPrompt = ToLower unicodeLower prompt;
          hasActionVerb = has_marker lowerPrompt actionVerbs;
          hasSpecificityMarker = has_marker lowerPrompt specificityMarkers;
          wordCount = wordCount_of prompt
      in if \<not> hasActionVerb \<and> wordCount < 10 then
           graded criterion 1 ''Poor'' ''Prompt lacks clear direction or specific task''
             [''Start with an action verb (e.g., 'explain', 'create', 'analyze')'']
         else if \<not> hasActionVerb then
           graded criterion 3 ''Poor'' ''Prompt needs a clearer task or objective''
             [''Specify exactly what you want (e.g., 'explain how X works')'']
         else if \<not> hasSpecificityMarker \<and> wordCount < 20 then
           graded criterion 5 ''Fair'' ''Prompt has a task but could be more specific''
             [''Add details about scope, depth, or focus'']
         else if \<not> hasSpecificityMarker \<and> wordCount < 40 then
           graded criterion 7 ''Good'' ''Clear task but lacks precise details''
             [''Add specific parameters or success criteria'']
         else if hasSpecificityMarker \<and> wordCount < 30 then
           graded criterion 8 ''Very Good'' ''Specific prompt with clear direction'' []
         else
           graded criterion 10 ''Excellent''
             ''Highly specific and well-defined with clear parameters'' [])"

definition contextMarkers :: "string list" where
  "contextMarkers =
     [''because'', ''since'', ''given'', ''considering'', ''context'', ''background'', ''for'',
      ''about'', ''in order to'', ''so that'', ''my goal'', ''i need'', ''i want'']"

definition checkContext :: "(string \<Rightarrow> string) \<Rightarrow> string \<Rightarrow> Criterion" where
  "checkContext unicodeLower prompt =
     (let criterion = new_criterion ''Context'';
          lowerPrompt = ToLower unicodeLower prompt;
          contextCount = count_markers lowerPrompt contextMarkers;
          wordCount = wordCount_of prompt
      in if contextCount = 0 \<and> wordCount < 15 then
           graded criterion 1 ''Poor'' ''No context provided''
             [''Add background information or context'']
         else if contextCount = 0 \<and> wordCount < 30 then
           graded criterion 3 ''Poor'' ''Minimal context provided''
             [''Explain why you need this or provide relevant background'']
         else if contextCount = 1 then
           graded criterion 5 ''Fair'' ''Some context provided''
             [''Add more background details for better results'']
         else if contextCount = 2 then
           graded criterion 7 ''Good'' ''Good context provided'' []
         else if contextCount = 3 then
           graded criterion 8 ''Very Good'' ''Rich context with good background'' []
         else
           graded criterion 10 ''Excellent''
             ''Comprehensive context with clear purpose and background'' [])"

definition checkStructure :: "string \<Rightarrow> Criterion" where
  "checkStructure prompt =
     (let criterion = new_criterion ''Structure'';
          hasPunctuation = ContainsAny prompt ''.?!,;:'';
          hasParagraphs = Contains prompt ''\<newline>\<newline>'';
          hasList = (Contains prompt ''1.'' \<or> Contains prompt ''2.''
                     \<or> Contains prompt ''-'' \<or> Contains prompt ''*'');
          hasNumbering = (Contains prompt ''1)'' \<or> Contains prompt ''2)'');
          hasSections = (Contains prompt '':'' \<and> hasPunctuation);
          wordCount = wordCount_of prompt
      in if wordCount < 5 then
           graded criterion 1 ''Poor'' ''Prompt too short to have meaningful structure''
             [''Expand your prompt with multiple sentences'']
         else
           (let structureScore = (if hasPunctuation then 1 else 0)
                               + (if hasParagraphs then 2 else 0)
                               + (if hasList \<or> hasNumbering then 2 else 0)
                               + (if hasSections then 1 else (0::int))
            in if \<not> hasPunctuation \<and> wordCount > 10 then
                 graded criterion 2 ''Poor'' ''Prompt lacks proper structure and punctuation''
                   [''Use punctuation to separate ideas'']
               else if structureScore \<le> 1 \<and> wordCount > 20 then
                 graded criterion 4 ''Fair'' ''Basic structure but could be improved''
                   [''Break into paragraphs or use lists for clarity'']
               else if structureScore \<le> 1 then
                 graded criterion 5 ''Fair'' ''Adequate structure for simple prompt'' []
               else if structureScore = 2 then
                 graded criterion 6 ''Good'' ''Good structure with clear organization'' []
               else if structureScore = 3 then
                 graded criterion 7 ''Good'' ''Well-structured with multiple elements'' []
               else if structureScore = 4 then
                 graded criterion 8 ''Very Good'' ''Very well-structured prompt'' []
               else
                 graded criterion 10 ''Excellent''
                   ''Excellently structured with clear organization and sections'' []))"

definition constraintMarkers :: "string list" where
  "constraintMarkers =
     [''limit'', ''maximum'', ''minimum'', ''should not'', ''must'', ''only'', ''within'',
      ''up to'', ''at least'', ''exactly'', ''no more than'']"

definition checkConstraints :: "(string \<Rightarrow> string) \<Rightarrow> string \<Rightarrow> Criterion" where
  "checkConstraints unicodeLower prompt =
     (let criterion = new_criterion ''Constraints'';
          lowerPrompt = ToLower unicodeLower prompt;
          constraintCount = count_markers lowerPrompt constraintMarkers
      in if constraintCount = 0 then
           graded criterion 2 ''Poor'' ''No constraints specified''
             [''Consider adding constraints (e.g., length, format, scope)'']
         else if constraintCount = 1 then
           graded criterion 5 ''Fair'' ''Minimal constraints provided''
             [''Add more specific constraints for better control'']
         else if constraintCount = 2 then
           graded criterion 7 ''Good'' ''Some constraints specified'' []
         else if constraintCount = 3 then
           graded criterion 8 ''Very Good'' ''Good constraints specified'' []
         else
           graded criterion 10 ''Excellent'' ''Well-defined constraints with clear boundaries'' [])"

definition formatMarkers :: "string list" where
  "formatMarkers =
     [''format'', ''json'', ''markdown'', ''list'', ''table'', ''bullet'', ''numbered'',
      ''paragraph'', ''code'', ''style'', ''output as'', ''return as'', ''provide as'',
      ''structure as'', ''organize as'', ''csv'', ''xml'', ''html'']"

definition checkOutputFormat :: "(string \<Rightarrow> string) \<Rightarrow> string \<Rightarrow> Criterion" where
  "checkOutputFormat unicodeLower prompt =
     (let criterion = new_criterion ''Output Format'';
          lowerPrompt = ToLower unicodeLower prompt;
          hasFormat = has_marker lowerPrompt formatMarkers;
          formatCount = count_markers lowerPrompt formatMarkers
      in if \<not> hasFormat then
           graded criterion 2 ''Fair'' ''Output format not specified''
             [''Specify desired format (e.g., 'as a list', 'in JSON format', 'as a table')'']
         else if formatCount = 1 \<and> Contains lowerPrompt ''format'' then
           graded criterion 6 ''Good'' ''Format mentioned but not detailed''
             [''Be more specific about the exact format structure'']
         else if formatCount = 1 then
           graded criterion 7 ''Good'' ''Output format specified'' []
         else if formatCount = 2 then
           graded criterion 9 ''Excellent'' ''Detailed output format specification'' []
         else
           graded criterion 10 ''Excellent''
             ''Comprehensive output format with multiple specifications'' [])"

definition roleMarkers :: "string list" where
  "roleMarkers =
     [''as a'', ''you are'', ''act as'', ''pretend'', ''imagine you'', ''assume you'',
      ''expert'', ''professional'', ''specialist'', ''teacher'', ''coach'', ''consultant'',
      ''acting as'', ''role of'', ''persona of'']"

definition expertiseTerms :: "string list" where
  "expertiseTerms =
     [''expert in'', ''specialist in'', ''professional with'', ''experience in'', ''skilled in'']"

text \<open>
  The two loops of \<open>checkRole\<close> over the state \<open>(hasRole, roleCount, hasExpertise)\<close>.
\<close>

definition role_loop :: "string \<Rightarrow> bool \<times> int \<times> bool \<Rightarrow> string list \<Rightarrow> bool \<times> int \<times> bool" where
  "role_loop lowerPrompt st markers =
     foldl (\<lambda>(hasRole, roleCount, hasExpertise) marker.
              if Contains lowerPrompt marker
              then (True, roleCount + 1,
                    hasExpertise \<or> Contains marker ''expert'' \<or> Contains marker ''professional''
                      \<or> Contains marker ''specialist'')
              else (hasRole, roleCount, hasExpertise))
       st markers"

definition expertise_loop :: "string \<Rightarrow> bool \<times> int \<times> bool \<Rightarrow> string list \<Rightarrow> bool \<times> int \<times> bool" where
  "expertise_loop lowerPrompt st terms =
     foldl (\<lambda>(hasRole, roleCount, hasExpertise) term.
              if Contains lowerPrompt term
              then (hasRole, roleCount + 1, True)
              else (hasRole, roleCount, hasExpertise))
       st terms"

definition checkRole :: "(string \<Rightarrow> string) \<Rightarrow> string \<Rightarrow> Criterion" where
  "checkRole unicodeLower prompt =
     (let criterion = new_criterion ''Role/Persona'';
          lowerPrompt = ToLower unicodeLower prompt;
          st = expertise_loop lowerPrompt
                 (role_loop lowerPrompt (False, 0, False) roleMarkers) expertiseTerms;
          hasRole = fst st;
          roleCount = fst (snd st);
          hasExpertise = snd (snd st)
      in if \<not> hasRole then
           graded criterion 2 ''Fair'' ''No role or persona defined''
             [''Define a role (e.g., 'as an expert in X', 'act as a teacher')'']
         else if hasRole \<and> \<not> hasExpertise \<and> roleCount = 1 then
           graded criterion 6 ''Good'' ''Basic role mentioned''
             [''Add expertise level or specific domain knowledge'']
         else if hasRole \<and> hasExpertise \<and> roleCount = 1 then
           graded criterion 8 ''Very Good'' ''Clear expert role defined'' []
         else if roleCount = 2 then
           graded criterion 9 ''Excellent'' ''Well-defined role with expertise'' []
         else
           graded criterion 10 ''Excellent''
             ''Comprehensive role definition with detailed expertise'' [])"

definition exampleMarkers :: "string list" where
  "exampleMarkers =
     [''example'', ''such as'', ''like'', ''for instance'', ''e.g.'', ''i.e.'', ''for example'']"

definition checkExamples :: "(string \<Rightarrow> string) \<Rightarrow> string \<Rightarrow> Criterion" where
  "checkExamples unicodeLower prompt =
     (let criterion = new_criterion ''Examples'';
          lowerPrompt = ToLower unicodeLower prompt;
          exampleCount = count_markers lowerPrompt exampleMarkers
      in if exampleCount = 0 then
           graded criterion 2 ''Poor'' ''No examples provided''
             [''Include examples to clarify expectations'']
         else if exampleCount = 1 then
           graded criterion 6 ''Good'' ''One example provided''
             [''Add more examples for clarity'']
         else if exampleCount = 2 then
           graded criterion 8 ''Very Good'' ''Multiple examples provided'' []
         else
           graded criterion 10 ''Excellent'' ''Rich examples for comprehensive clarity'' [])"

definition getRating :: "int \<Rightarrow> string" where
  "getRating score =
     (if score \<ge> 90 then ''Outstanding''
      else if score \<ge> 75 then ''Excellent''
      else if score \<ge> 60 then ''Good''
      else if score \<ge> 40 then ''Fair''
      else ''Poor'')"

definition generateRecommendations :: "Assessment \<Rightarrow> string list" where
  "generateRecommendations assessment =
     (let recommendations =
            foldl (\<lambda>recs criterion.
                     if Score criterion < 4 \<and> length (Suggestions criterion) > 0
                     then recs @ Suggestions criterion else recs)
              [] (Criteria assessment)
      in if OverallScore assessment < 60
         then recommendations @ [''Consider using prompt engineering best practices'',
                                 ''Break down complex requests into smaller parts'']
         else recommendations)"

text \<open>
  Go's integer division panics when the divisor is zero (\<open>None\<close>) and truncates toward
  zero otherwise.
\<close>

definition int_quo :: "int \<Rightarrow> int \<Rightarrow> int option" where
  "int_quo a b = (if b = 0 then None else Some (sgn a * sgn b * (\<bar>a\<bar> div \<bar>b\<bar>)))"

text \<open>The loop of \<open>Analyze\<close> over the criteria: \<open>(totalScore, maxScore, totalIssues)\<close>.\<close>

definition score_totals :: "Criterion list \<Rightarrow> int \<times> int \<times> int" where
  "score_totals criteria =
     foldl (\<lambda>(totalScore, maxScore, totalIssues) criterion.
              (totalScore + Score criterion, maxScore + MaxScore criterion,
               if Score criterion < 4 then totalIssues + 1 else totalIssues))
       (0, 0, 0) criteria"

definition run_checks :: "(string \<Rightarrow> string) \<Rightarrow> string \<Rightarrow> Criterion list" where
  "run_checks unicodeLower prompt =
     [checkClarity prompt,
      checkRelevance unicodeLower prompt,
      checkSpecificity unicodeLower prompt,
      checkContext unicodeLower prompt,
      checkStructure prompt,
      checkConstraints unicodeLower prompt,
      checkOutputFormat unicodeLower prompt,
      checkRole unicodeLower prompt,
      checkExamples unicodeLower prompt]"

text \<open>
  \<open>Analyzer.Analyze\<close>, of the later of the two versions of the analyzer that the file
  holds (nine checks, each out of 10). \<open>None\<close> is the panic of a division by zero.
\<close>

definition Analyze :: "(string \<Rightarrow> string) \<Rightarrow> string \<Rightarrow> Assessment option" where
  "Analyze unicodeLower prompt =
     (let criteria = run_checks unicodeLower prompt;
          totalScore = fst (score_totals criteria);
          maxScore = fst (snd (score_totals criteria));
          totalIssues = snd (snd (score_totals criteria))
      in case int_quo (totalScore * 100) maxScore of
           None \<Rightarrow> None
         | Some overall \<Rightarrow>
             (let assessment = \<lparr>Criteria = criteria, OverallScore = overall,
                                 OverallRating = getRating overall, TotalIssues = totalIssues,
                                 Recommendations = []\<rparr>
              in Some (assessment\<lparr>Recommendations := generateRecommendations assessment\<rparr>)))"

text \<open>A criterion of the given name on the scale of 1 to 10.\<close>

definition in_scale :: "string \<Rightarrow> Criterion \<Rightarrow> bool" where
  "in_scale name c \<longleftrightarrow> crit_Name c = name \<and> 1 \<le> Score c \<and> Score c \<le> 10 \<and> MaxScore c = 10"

section \<open>Shell mode output (package chat)\<close>

definition quote :: char where
  "quote = CHR 0x22"

definition backslash :: char where
  "backslash = CHR 0x5C"

text \<open>\<open>ShellMode.FormatOutput\<close>; of the shell mode it reads \<open>config.OutputFormat\<close> only.\<close>

definition FormatOutput :: "AppConfig \<Rightarrow> string \<Rightarrow> string" where
  "FormatOutput cfg content =
     (if OutputFormat cfg = ''json'' then
        (let escaped0 = ReplaceAll content quote [backslash, quote];
             escaped = ReplaceAll escaped0 (CHR 0x0A) [backslash, CHR ''n'']
         in ''{'' @ [quote] @ ''response'' @ [quote] @ '': '' @ [quote] @ escaped @ [quote] @ ''}'')
      else if OutputFormat cfg = ''markdown'' then ''# Response\<newline>\<newline>'' @ content
      else if OutputFormat cfg = ''raw'' then content
      else content)"

text \<open>
  Reading a JSON text of the shape \<open>{"response": "..."}\<close> by the grammar of JSON strings
  (RFC 8259): a string ends at the first quote that no backslash escapes, a backslash
  starts an escape, and a control character may not stand unescaped. Escapes of the form u plus four hex digits
  are recognised and not decoded.
\<close>

datatype json_error = Malformed | UnicodeEscape

function json_string :: "string \<Rightarrow> string \<Rightarrow> json_error + string \<times> string" where
  "json_string acc [] = Inl Malformed"
| "json_string acc [c] =
     (if c = quote then Inr (acc, [])
      else if c = backslash \<or> (of_char c :: nat) < 32 then Inl Malformed
      else json_string (acc @ [c]) [])"
| "json_string acc (c # e # s) =
     (if c = quote then Inr (acc, e # s)
      else if c = backslash then
        (if e = quote then json_string (acc @ [quote]) s
         else if e = backslash then json_string (acc @ [backslash]) s
         else if e = CHR ''/'' then json_string (acc @ ''/'') s
         else if e = CHR ''b'' then json_string (acc @ [CHR 0x08]) s
         else if e = CHR ''f'' then json_string (acc @ [CHR 0x0C]) s
         else if e = CHR ''n'' then json_string (acc @ [CHR 0x0A]) s
         else if e = CHR ''r'' then json_string (acc @ [CHR 0x0D]) s
         else if e = CHR ''t'' then json_string (acc @ [CHR 0x09]) s
         else if e = CHR ''u'' then Inl UnicodeEscape
         else Inl Malformed)
      else if (of_char c :: nat) < 32 then Inl Malformed
      else json_string (acc @ [c]) (e # s))"
  by pat_completeness auto
termination
  by (relation "measure (\<lambda>(acc, s). length s)") auto

definition response_header :: string where
  "response_header = ''{'' @ [quote] @ ''response'' @ [quote] @ '': '' @ [quote]"

definition decode_response :: "string \<Rightarrow> json_error + string" where
  "decode_response text =
     (if prefix response_header text then
        (case json_string [] (drop (length response_header) text) of
           Inl err \<Rightarrow> Inl err
         | Inr (v, rest) \<Rightarrow> if rest = ''}'' then Inr v else Inl Malformed)
      else Inl Malformed)"

text \<open>The two replacements of \<open>FormatOutput\<close> taken together, byte by byte.\<close>

definition json_escape :: "char \<Rightarrow> string" where
  "json_escape c =
     (if c = quote then [backslash, quote]
      else if c = CHR 0x0A then [backslash, CHR ''n'']
      else [c])"

section \<open>Sample values\<close>

text \<open>Concrete providers, registries and inputs at which the theorems are instantiated.\<close>

definition p_groq :: Provider where
  "p_groq = \<lparr>addr = 1, Name = ''groq'', IsAvailable = True\<rparr>"

definition p_groq_again :: Provider where
  "p_groq_again = \<lparr>addr = 4, Name = ''groq'', IsAvailable = False\<rparr>"

definition p_ollama :: Provider where
  "p_ollama = \<lparr>addr = 2, Name = ''ollama'', IsAvailable = False\<rparr>"

definition p_gemini :: Provider where
  "p_gemini = \<lparr>addr = 3, Name = ''gemini'', IsAvailable = True\<rparr>"

definition md_plain :: Metadata where
  "md_plain = \<lparr>meta_Name = ''p'', DisplayName = ''P'', Description = ''a provider'',
               RequiresAPI = True, DefaultURL = ''https://example.org'', EnvVarKey = ''KEY'',
               EnvVarModel = ''MODEL'', Icon = ''*''\<rparr>"

definition reg3 :: Registry where
  "reg3 = snd (Register (snd (Register (snd (Register New p_ollama md_plain)) p_groq md_plain))
                 p_gemini md_plain)"

definition cfg_alias :: Config where
  "cfg_alias = \<lparr>APIKey = '''', BaseURL = '''', Model = ''llama-70b'', cfg_Temperature = Finite 0.7, cfg_MaxTokens = 4000, Timeout = 60\<rparr>"

definition cfg_literal :: Config where
  "cfg_literal = \<lparr>APIKey = '''', BaseURL = '''', Model = ''my-org/custom-model'', cfg_Temperature = Finite 0.7, cfg_MaxTokens = 4000, Timeout = 60\<rparr>"

definition cfg_unset :: Config where
  "cfg_unset = \<lparr>APIKey = '''', BaseURL = '''', Model = '''', cfg_Temperature = Finite 0.7, cfg_MaxTokens = 4000, Timeout = 60\<rparr>"

definition openai_fresh :: OpenAIProvider where
  "openai_fresh = \<lparr>model = ''initial-model'', isAvailable = True\<rparr>"

definition gemini_fresh :: GeminiProvider where
  "gemini_fresh = \<lparr>has_client = True, generative_model = None, modelName = ''gemini-2.0-flash-lite'', gemini_isAvailable = True\<rparr>"

definition req_zero :: ChatRequest where
  "req_zero = \<lparr>Messages = [\<lparr>Role = RoleUser, Content = ''hi'', Timestamp = 0\<rparr>],
               Temperature = Finite 0, MaxTokens = 0, Stream = True\<rparr>"

definition req_default :: ChatRequest where
  "req_default = \<lparr>Messages = [\<lparr>Role = RoleUser, Content = ''hi'', Timestamp = 0\<rparr>],
               Temperature = Finite 0.7, MaxTokens = 4000, Stream = True\<rparr>"

definition ollama_fresh :: OllamaProvider where
  "ollama_fresh = \<lparr>ollama_model = ''llama3:8b-instruct-q4_K_M'', baseURL = ''http://localhost:11434'', ollama_isAvailable = True\<rparr>"

definition frames_with_eof :: "recv_result list" where
  "frames_with_eof = [Response [''Hel''], Response [], Response [''lo'', ''ignored''], RecvError ''EOF'']"

definition iter_with_done :: "iter_result list" where
  "iter_with_done = [IterResponse [Some [''Hel'', ''lo'']], IterDone]"

definition env_live :: scheduling where
  "env_live = \<lparr>consumer = Drains, cancelled = False, pick = (\<lambda>i. SendCase)\<rparr>"

definition env_cancelled_after_first :: scheduling where
  "env_cancelled_after_first =
     \<lparr>consumer = Drains, cancelled = True, pick = (\<lambda>i. if i = 0 then SendCase else DoneCase)\<rparr>"

definition frames_fill_buffer :: "recv_result list" where
  "frames_fill_buffer = replicate 10 (Response [''x'']) @ [RecvError ''context canceled'']"

definition iter_fill_buffer :: "iter_result list" where
  "iter_fill_buffer = replicate 10 (IterResponse [Some [''x'']]) @ [IterError ''context canceled'']"

definition session_fresh :: Session where
  "session_fresh =
     \<lparr>messages = [], currentModel = ''llama-3.3-70b-versatile'',
      config = \<lparr>app_Temperature = Finite 0.7, app_MaxTokens = 4000, Verbose = False,
                OutputFormat = ''text''\<rparr>,
      sink = []\<rparr>"

definition clock_sample :: clock where
  "clock_sample = \<lparr>now_user = 100, since_start = 3, now_assistant = 103\<rparr>"

definition failing_stream :: "ChatRequest \<Rightarrow> string + StreamChunk list" where
  "failing_stream req =
     Inr [content_chunk ''Hel'', content_chunk ''lo'', error_chunk ''connection reset'']"

definition tf_stub :: time_format where
  "tf_stub = \<lparr>Format = (\<lambda>layout t. layout), RoundedDuration = (\<lambda>e s. ''5s'')\<rparr>"

definition conv_sample :: Conversation where
  "conv_sample =
     \<lparr>ID = ''conv_1'', conv_Provider = ''groq'', conv_Model = ''llama-3.3-70b-versatile'',
      conv_Messages = [\<lparr>Role = ''user'', Content = ''Hello'', Timestamp = 100\<rparr>,
                       \<lparr>Role = ''assistant'', Content = ''Hi there'', Timestamp = 103\<rparr>],
      StartTime = 100, EndTime = 105, TokensUsed = 0, Summary = ''none''\<rparr>"

definition cfg_json :: AppConfig where
  "cfg_json = \<lparr>app_Temperature = Finite 0.7, app_MaxTokens = 4000, Verbose = False,
               OutputFormat = ''json''\<rparr>"

definition prompt_short :: string where
  "prompt_short = ''Explain how a hash map works, for example in Go. It must fit in one page.''"

section \<open>Properties of the registry\<close>

lemma Get_registered:
  "providers r name = Some p \<Longrightarrow> Get r name = (Inr p, r)"
  by (simp add: Get_def)

lemma Get_state_unchanged: "snd (Get r name) = r"
  by (simp add: Get_def split: option.split)

lemma Get_repeat_state: "((\<lambda>s. snd (Get s name)) ^^ n) r = r"
  by (induction n) (simp_all add: Get_state_unchanged)

lemma Register_duplicate:
  "providers r (Name p) = Some q \<Longrightarrow> Register r p md = (Some (AlreadyRegistered (Name p)), r)"
  by (simp add: Register_def)

lemma providers_reg3:
  "providers reg3 = [''ollama'' \<mapsto> p_ollama, ''groq'' \<mapsto> p_groq, ''gemini'' \<mapsto> p_gemini]"
  by (simp add: reg3_def Register_def Let_def New_def p_groq_def p_ollama_def p_gemini_def)

text \<open>
  C4. For a registered name, \<open>Get\<close> returns the stored instance and the same registry,
  however many lookups came before; \<open>Register\<close> of a provider whose name is taken returns
  the duplicate-name error and the same registry (both maps).
\<close>

theorem registry_get_stable_register_duplicate:
  assumes "providers r name = Some p"
  shows "Get r name = (Inr p, r)
    \<and> Get (((\<lambda>s. snd (Get s name)) ^^ n) r) name = (Inr p, r)
    \<and> (Name q = name \<longrightarrow>
          Register r q md = (Some (AlreadyRegistered name), r)
          \<and> providers (snd (Register r q md)) = providers r
          \<and> metadata (snd (Register r q md)) = metadata r)"
proof -
  have g: "Get r name = (Inr p, r)"
    using assms by (rule Get_registered)
  have rep: "Get (((\<lambda>s. snd (Get s name)) ^^ n) r) name = (Inr p, r)"
    by (simp only: Get_repeat_state g)
  have d: "Register r q md = (Some (AlreadyRegistered name), r)" if "Name q = name"
    using assms that Register_duplicate [of r q p md] by simp
  show ?thesis
    using g rep d by simp
qed

theorem registry_get_stable_register_duplicate_witness:
  "providers reg3 ''groq'' = Some p_groq
   \<and> Name p_groq_again = ''groq''
   \<and> Get reg3 ''groq'' = (Inr p_groq, reg3)
   \<and> Get (((\<lambda>s. snd (Get s ''groq'')) ^^ 5) reg3) ''groq'' = (Inr p_groq, reg3)
   \<and> Register reg3 p_groq_again md_plain = (Some (AlreadyRegistered ''groq''), reg3)"
  using registry_get_stable_register_duplicate
          [where r = reg3 and name = "''groq''" and p = p_groq and q = p_groq_again
             and md = md_plain and n = 5]
  by (simp add: providers_reg3 p_groq_again_def)

lemma foldl_append_names:
  "foldl (\<lambda>names name. names @ [name]) acc visit = acc @ visit"
  by (induction visit arbitrary: acc) simp_all

lemma foldl_available_names:
  "foldl (\<lambda>available name.
            case providers r name of
              Some provider \<Rightarrow> if IsAvailable provider then available @ [name] else available
            | None \<Rightarrow> available) acc visit
   = acc @ filter (\<lambda>name. \<exists>p. providers r name = Some p \<and> IsAvailable p) visit"
  by (induction visit arbitrary: acc) (auto split: option.splits)

text \<open>
  C7. Whatever order the loop visits the map in, \<open>List\<close> returns the registered names,
  each once, in ascending order, and \<open>ListAvailable\<close> returns in ascending order, each
  once, exactly the registered names whose provider reports itself available.
\<close>

theorem registry_lists_sorted:
  assumes "range_order r visit"
  shows "sorted (List_names r visit) \<and> distinct (List_names r visit)
     \<and> set (List_names r visit) = dom (providers r)
     \<and> sorted (ListAvailable r visit) \<and> distinct (ListAvailable r visit)
     \<and> set (ListAvailable r visit)
         = {name. \<exists>p. providers r name = Some p \<and> IsAvailable p}"
  using assms
  by (auto simp add: range_order_def List_names_def ListAvailable_def
        foldl_append_names foldl_available_names)

theorem registry_lists_sorted_witness:
  "range_order reg3 [''ollama'', ''groq'', ''gemini'']
   \<and> List_names reg3 [''ollama'', ''groq'', ''gemini''] = [''gemini'', ''groq'', ''ollama'']
   \<and> ListAvailable reg3 [''ollama'', ''groq'', ''gemini''] = [''gemini'', ''groq'']"
  using registry_lists_sorted [of reg3 "[''ollama'', ''groq'', ''gemini'']"]
  by (auto simp add: range_order_def List_names_def ListAvailable_def providers_reg3
        p_groq_def p_ollama_def p_gemini_def less_eq_char_def less_char_def)

section \<open>Properties of the providers\<close>

text \<open>
  C6. \<open>Initialize\<close> of groq, together, samba and gemini never returns an error. With an
  empty \<open>cfg.Model\<close> it leaves the provider as it was. With a non-empty one, the model
  becomes the full identifier of the alias table when \<open>cfg.Model\<close> is an alias there,
  and \<open>cfg.Model\<close> itself when it is not.
\<close>

theorem hosted_Initialize_alias:
  "fst (groq_Initialize g cfg) = None
   \<and> fst (together_Initialize t cfg) = None
   \<and> fst (samba_Initialize s cfg) = None
   \<and> fst (gemini_Initialize gm cfg) = None
   \<and> (Model cfg = '''' \<longrightarrow>
         snd (groq_Initialize g cfg) = g \<and> snd (together_Initialize t cfg) = t
         \<and> snd (samba_Initialize s cfg) = s \<and> snd (gemini_Initialize gm cfg) = gm)
   \<and> (Model cfg \<noteq> '''' \<longrightarrow>
         (\<forall>full. groqModels (Model cfg) = Some full \<longrightarrow> model (snd (groq_Initialize g cfg)) = full)
         \<and> (groqModels (Model cfg) = None \<longrightarrow> model (snd (groq_Initialize g cfg)) = Model cfg)
         \<and> (\<forall>full. togetherModels (Model cfg) = Some full
               \<longrightarrow> model (snd (together_Initialize t cfg)) = full)
         \<and> (togetherModels (Model cfg) = None
               \<longrightarrow> model (snd (together_Initialize t cfg)) = Model cfg)
         \<and> (\<forall>full. sambaModels (Model cfg) = Some full
               \<longrightarrow> model (snd (samba_Initialize s cfg)) = full)
         \<and> (sambaModels (Model cfg) = None \<longrightarrow> model (snd (samba_Initialize s cfg)) = Model cfg)
         \<and> (\<forall>full. geminiModels (Model cfg) = Some full
               \<longrightarrow> modelName (snd (gemini_Initialize gm cfg)) = full)
         \<and> (geminiModels (Model cfg) = None
               \<longrightarrow> modelName (snd (gemini_Initialize gm cfg)) = Model cfg))"
  by (simp add: groq_Initialize_def together_Initialize_def samba_Initialize_def
        gemini_Initialize_def Let_def split: option.split)

theorem hosted_Initialize_alias_witness:
  "Model cfg_alias \<noteq> '''' \<and> groqModels (Model cfg_alias) = Some ''llama-3.3-70b-versatile''
   \<and> groq_Initialize openai_fresh cfg_alias = (None, openai_fresh\<lparr>model := ''llama-3.3-70b-versatile''\<rparr>)
   \<and> geminiModels (Model cfg_literal) = None
   \<and> modelName (snd (gemini_Initialize gemini_fresh cfg_literal)) = ''my-org/custom-model''
   \<and> Model cfg_unset = ''''
   \<and> samba_Initialize openai_fresh cfg_unset = (None, openai_fresh)"
  using hosted_Initialize_alias [of openai_fresh cfg_alias openai_fresh openai_fresh gemini_fresh]
        hosted_Initialize_alias [of openai_fresh cfg_literal openai_fresh openai_fresh gemini_fresh]
        hosted_Initialize_alias [of openai_fresh cfg_unset openai_fresh openai_fresh gemini_fresh]
  by (simp add: cfg_alias_def cfg_literal_def cfg_unset_def groqModels_def geminiModels_def
        groq_Initialize_def samba_Initialize_def)

text \<open>
  C5. The requests of groq, together and samba carry the temperature (converted to
  \<open>float32\<close>) and \<open>max_tokens\<close> of every \<open>ChatRequest\<close>, whatever their values.
  The ollama request carries the option \<open>temperature\<close> exactly when
  \<open>req.Temperature > 0\<close> and the option \<open>num_predict\<close> exactly when
  \<open>req.MaxTokens > 0\<close>.
\<close>

theorem parameter_forwarding:
  "oa_Temperature (SendMessage_request g req) = float32 (Temperature req)
   \<and> oa_MaxTokens (SendMessage_request g req) = MaxTokens req
   \<and> oa_Temperature (StreamMessage_request g req) = float32 (Temperature req)
   \<and> oa_MaxTokens (StreamMessage_request g req) = MaxTokens req
   \<and> (gt_zero (Temperature req) \<longrightarrow>
         sent_option (ollama_chat_request stream p req) ''temperature''
           = Some (OptFloat (Temperature req)))
   \<and> (\<not> gt_zero (Temperature req) \<longrightarrow>
         sent_option (ollama_chat_request stream p req) ''temperature'' = None)
   \<and> (0 < MaxTokens req \<longrightarrow>
         sent_option (ollama_chat_request stream p req) ''num_predict''
           = Some (OptInt (MaxTokens req)))
   \<and> (\<not> 0 < MaxTokens req \<longrightarrow>
         sent_option (ollama_chat_request stream p req) ''num_predict'' = None)"
  by (simp add: SendMessage_request_def StreamMessage_request_def ollama_chat_request_def
        sent_option_def Let_def)

theorem parameter_forwarding_witness:
  "\<not> gt_zero (Temperature req_zero) \<and> \<not> 0 < MaxTokens req_zero
   \<and> oa_Temperature (StreamMessage_request openai_fresh req_zero) = float32 (Finite 0)
   \<and> oa_MaxTokens (StreamMessage_request openai_fresh req_zero) = 0
   \<and> Options (ollama_chat_request True ollama_fresh req_zero) = None
   \<and> gt_zero (Temperature req_default) \<and> 0 < MaxTokens req_default
   \<and> sent_option (ollama_chat_request True ollama_fresh req_default) ''temperature''
        = Some (OptFloat (Finite 0.7))
   \<and> sent_option (ollama_chat_request True ollama_fresh req_default) ''num_predict''
        = Some (OptInt 4000)"
  using parameter_forwarding [of openai_fresh req_zero True ollama_fresh]
        parameter_forwarding [of openai_fresh req_default True ollama_fresh]
  by (simp add: req_zero_def req_default_def ollama_chat_request_def Let_def)

subsection \<open>Streaming\<close>

lemma can_send_Drains: "can_send Drains sent"
  by (simp add: can_send_def)

lemma send_return_Drains: "send_return Drains sent x = Closed (sent @ [x])"
  by (simp add: send_return_def can_send_Drains)

lemma one_done_last_snoc:
  "\<forall>c\<in>set pre. \<not> Done c \<Longrightarrow> Done t \<Longrightarrow> one_done_last (pre @ [t])"
  by (simp add: one_done_last_def)

lemma openai_closed_shape:
  "openai_stream_goroutine Drains evs sent = Closed cs
   \<Longrightarrow> \<exists>mid t. cs = sent @ mid @ [t] \<and> (\<forall>c\<in>set mid. \<not> Done c) \<and> Done t"
proof (induction evs arbitrary: sent)
  case Nil
  then show ?case by simp
next
  case (Cons ev evs)
  show ?case
  proof (cases ev)
    case (RecvError err)
    with Cons.prems have "cs = sent @ [] @ [done_chunk] \<or> cs = sent @ [] @ [error_chunk err]"
      by (auto simp add: send_return_Drains split: if_splits)
    then show ?thesis
      by (auto simp add: done_chunk_def error_chunk_def)
  next
    case (Response choices)
    show ?thesis
    proof (cases choices)
      case Nil
      with Response Cons.prems have "openai_stream_goroutine Drains evs sent = Closed cs"
        by simp
      then show ?thesis by (rule Cons.IH)
    next
      case (Cons content more)
      with Response Cons.prems
      have "openai_stream_goroutine Drains evs (sent @ [content_chunk content]) = Closed cs"
        by (simp add: can_send_Drains)
      from Cons.IH [OF this] obtain mid t
        where "cs = (sent @ [content_chunk content]) @ mid @ [t]"
          and "\<forall>c\<in>set mid. \<not> Done c" and "Done t"
        by blast
      then have "cs = sent @ (content_chunk content # mid) @ [t]
                 \<and> (\<forall>c\<in>set (content_chunk content # mid). \<not> Done c) \<and> Done t"
        by (simp add: content_chunk_def)
      then show ?thesis by blast
    qed
  qed
qed

lemma openai_returns:
  "\<exists>err. RecvError err \<in> set evs \<Longrightarrow> \<exists>cs. openai_stream_goroutine Drains evs sent = Closed cs"
proof (induction evs arbitrary: sent)
  case Nil
  then show ?case by simp
next
  case (Cons ev evs)
  show ?case
  proof (cases ev)
    case (RecvError err)
    then show ?thesis by (simp add: send_return_Drains)
  next
    case (Response choices)
    with Cons.prems have "\<exists>err. RecvError err \<in> set evs" by auto
    from Cons.IH [OF this] Response show ?thesis
      by (cases choices) (simp_all add: can_send_Drains)
  qed
qed

lemma send_parts_Drains: "send_parts Drains parts sent = (True, sent @ map content_chunk parts)"
  by (induction parts arbitrary: sent) (simp_all add: can_send_Drains)

lemma gemini_closed_shape:
  "gemini_stream_goroutine Drains evs sent = Closed cs
   \<Longrightarrow> \<exists>mid t. cs = sent @ mid @ [t] \<and> (\<forall>c\<in>set mid. \<not> Done c) \<and> Done t"
proof (induction Drains evs sent rule: gemini_stream_goroutine.induct)
  case (1 sent)
  then show ?case by simp
next
  case (2 uu sent)
  then have "cs = sent @ [] @ [done_chunk]" by (simp add: send_return_Drains)
  then show ?case by (auto simp add: done_chunk_def)
next
  case (3 err uv sent)
  then have "cs = sent @ [] @ [error_chunk err]" by (simp add: send_return_Drains)
  then show ?case by (auto simp add: error_chunk_def)
next
  case (4 uw sent)
  then show ?case by simp
next
  case (5 ux uy sent)
  then show ?case by simp
next
  case (6 parts uz rest sent)
  then have "gemini_stream_goroutine Drains rest (sent @ map content_chunk parts) = Closed cs"
    by (simp add: send_parts_Drains)
  with 6 obtain mid t
    where "cs = (sent @ map content_chunk parts) @ mid @ [t]"
      and "\<forall>c\<in>set mid. \<not> Done c" and "Done t"
    by (auto simp add: send_parts_Drains)
  then have "cs = sent @ (map content_chunk parts @ mid) @ [t]
             \<and> (\<forall>c\<in>set (map content_chunk parts @ mid). \<not> Done c) \<and> Done t"
    by (auto simp add: content_chunk_def)
  then show ?case by blast
qed

lemma gemini_returns:
  "iter_ends evs \<Longrightarrow> \<exists>cs. gemini_stream_goroutine Drains evs sent = Closed cs"
  by (induction evs arbitrary: sent rule: iter_ends.induct)
     (simp_all add: send_return_Drains send_parts_Drains)

lemma select_send_live:
  "consumer env = Drains \<Longrightarrow> \<not> cancelled env \<Longrightarrow> select_send env i sent x = Sent (sent @ [x])"
  by (simp add: select_send_def can_send_Drains)

lemma client_Chat_live:
  "consumer env = Drains \<Longrightarrow> \<not> cancelled env
   \<Longrightarrow> client_Chat env responses final i sent
       = Returned final (i + length responses) (sent @ map response_chunk responses)"
  by (induction responses arbitrary: i sent) (simp_all add: select_send_live)

lemma ollama_live:
  "consumer env = Drains \<Longrightarrow> \<not> cancelled env
   \<Longrightarrow> ollama_stream_goroutine env responses final
       = Closed (map response_chunk responses
                 @ (case final of None \<Rightarrow> []
                    | Some err \<Rightarrow> [error_chunk (''ollama streaming error: '' @ err)]))"
  by (simp add: ollama_stream_goroutine_def client_Chat_live select_send_live split: option.split)

lemma select_send_cancelled: "cancelled env \<Longrightarrow> select_send env i sent x \<noteq> Stuck"
  by (simp add: select_send_def split: select_case.split)

lemma client_Chat_cancelled:
  "cancelled env \<Longrightarrow> \<exists>err n cs. client_Chat env responses final i sent = Returned err n cs"
proof (induction responses arbitrary: i sent)
  case Nil
  then show ?case by simp
next
  case (Cons resp responses)
  then show ?case
    using select_send_cancelled [of env i sent "response_chunk resp"]
    by (cases "select_send env i sent (response_chunk resp)") simp_all
qed

text \<open>
  The ollama goroutine, whose sends are all guarded, returns and closes its channel under
  a cancelled context, whatever the consumer does.
\<close>

lemma ollama_cancelled_closes:
  "cancelled env \<Longrightarrow> \<exists>cs. ollama_stream_goroutine env responses final = Closed cs"
proof -
  assume c: "cancelled env"
  from client_Chat_cancelled [OF c] obtain err n cs
    where r: "client_Chat env responses final 0 [] = Returned err n cs"
    by blast
  show ?thesis
  proof (cases err)
    case None
    with r show ?thesis by (simp add: ollama_stream_goroutine_def)
  next
    case (Some e)
    with r show ?thesis
      using select_send_cancelled [OF c, of n cs "error_chunk (''ollama streaming error: '' @ e)"]
      by (cases "select_send env n cs (error_chunk (''ollama streaming error: '' @ e))")
         (simp_all add: ollama_stream_goroutine_def)
  qed
qed

text \<open>
  C1, as the code has it. The consumer receives until the channel is closed. For groq,
  together, samba and gemini: when the goroutine returns, the chunks delivered hold
  exactly one chunk with \<open>Done\<close> set, the last; and it returns once the transport
  reports its end or an error (for gemini: every response before that having a first
  candidate with content). For ollama, with a context that is not cancelled: the chunks
  delivered are the backend's responses with the backend's own \<open>Done\<close> flags,
  followed by one error chunk with \<open>Done\<close> set when \<open>Chat\<close> fails; so exactly one
  chunk with \<open>Done\<close> set is delivered, the last, when the backend flags its final
  response only and \<open>Chat\<close> succeeds, or flags none and \<open>Chat\<close> fails.
\<close>

theorem stream_terminal_chunk:
  "(\<forall>cs. openai_stream_goroutine Drains evs [] = Closed cs
          \<longrightarrow> one_done_last (delivered Drains (Closed cs)))
   \<and> ((\<exists>err. RecvError err \<in> set evs)
          \<longrightarrow> (\<exists>cs. openai_stream_goroutine Drains evs [] = Closed cs))
   \<and> (\<forall>cs. gemini_stream_goroutine Drains ievs [] = Closed cs
          \<longrightarrow> one_done_last (delivered Drains (Closed cs)))
   \<and> (iter_ends ievs \<longrightarrow> (\<exists>cs. gemini_stream_goroutine Drains ievs [] = Closed cs))
   \<and> (consumer env = Drains \<and> \<not> cancelled env \<longrightarrow>
         ollama_stream_goroutine env responses final
           = Closed (map response_chunk responses
                     @ (case final of None \<Rightarrow> []
                        | Some err \<Rightarrow> [error_chunk (''ollama streaming error: '' @ err)])))
   \<and> (consumer env = Drains \<and> \<not> cancelled env \<and> final = None
        \<and> responses = rs @ [(content, True)] \<and> (\<forall>r\<in>set rs. \<not> snd r) \<longrightarrow>
         one_done_last (delivered Drains (ollama_stream_goroutine env responses final)))
   \<and> (consumer env = Drains \<and> \<not> cancelled env \<and> final = Some err
        \<and> (\<forall>r\<in>set responses. \<not> snd r) \<longrightarrow>
         one_done_last (delivered Drains (ollama_stream_goroutine env responses final)))"
proof -
  have a: "one_done_last (delivered Drains (Closed cs))"
    if "openai_stream_goroutine Drains evs [] = Closed cs" for cs
    using openai_closed_shape [OF that] by (auto simp add: delivered_def intro: one_done_last_snoc)
  have b: "one_done_last (delivered Drains (Closed cs))"
    if "gemini_stream_goroutine Drains ievs [] = Closed cs" for cs
    using gemini_closed_shape [OF that] by (auto simp add: delivered_def intro: one_done_last_snoc)
  have c: "one_done_last (delivered Drains (ollama_stream_goroutine env responses final))"
    if "consumer env = Drains" "\<not> cancelled env" "final = None"
       "responses = rs @ [(content, True)]" "\<forall>r\<in>set rs. \<not> snd r"
  proof -
    have "one_done_last (map response_chunk rs @ [response_chunk (content, True)])"
      using that(5) by (intro one_done_last_snoc) (auto simp add: response_chunk_def)
    then show ?thesis
      using that by (simp add: ollama_live delivered_def)
  qed
  have d: "one_done_last (delivered Drains (ollama_stream_goroutine env responses final))"
    if "consumer env = Drains" "\<not> cancelled env" "final = Some err"
       "\<forall>r\<in>set responses. \<not> snd r"
  proof -
    have "one_done_last (map response_chunk responses
                          @ [error_chunk (''ollama streaming error: '' @ err)])"
      using that(4) by (intro one_done_last_snoc) (auto simp add: response_chunk_def error_chunk_def)
    then show ?thesis
      using that by (simp add: ollama_live delivered_def)
  qed
  show ?thesis
    using a b c d openai_returns [of evs "[]"] gemini_returns [of ievs "[]"]
          ollama_live [of env responses final]
    by blast
qed

lemma frames_with_eof_run:
  "openai_stream_goroutine Drains frames_with_eof []
     = Closed [content_chunk ''Hel'', content_chunk ''lo'', done_chunk]"
  by (simp add: frames_with_eof_def can_send_Drains send_return_Drains)

lemma iter_with_done_run:
  "gemini_stream_goroutine Drains iter_with_done []
     = Closed [content_chunk ''Hel'', content_chunk ''lo'', done_chunk]"
  by (simp add: iter_with_done_def can_send_Drains send_return_Drains)

text \<open>C1 at concrete transports of the three kinds.\<close>

theorem stream_terminal_chunk_witness:
  "openai_stream_goroutine Drains frames_with_eof []
     = Closed [content_chunk ''Hel'', content_chunk ''lo'', done_chunk]
   \<and> one_done_last [content_chunk ''Hel'', content_chunk ''lo'', done_chunk]
   \<and> RecvError ''EOF'' \<in> set frames_with_eof
   \<and> iter_ends iter_with_done
   \<and> gemini_stream_goroutine Drains iter_with_done []
     = Closed [content_chunk ''Hel'', content_chunk ''lo'', done_chunk]
   \<and> consumer env_live = Drains \<and> \<not> cancelled env_live
   \<and> one_done_last (delivered Drains
        (ollama_stream_goroutine env_live [(''Hel'', False), (''lo'', True)] None))
   \<and> one_done_last (delivered Drains
        (ollama_stream_goroutine env_live [(''Hel'', False)] (Some ''connection reset'')))"
  using stream_terminal_chunk
          [where evs = frames_with_eof and ievs = iter_with_done and env = env_live
             and responses = "[(''Hel'', False), (''lo'', True)]" and final = None
             and rs = "[(''Hel'', False)]" and content = "''lo''"]
        stream_terminal_chunk
          [where evs = frames_with_eof and ievs = iter_with_done and env = env_live
             and responses = "[(''Hel'', False)]" and final = "Some ''connection reset''"
             and err = "''connection reset''"]
  by (simp add: frames_with_eof_run iter_with_done_run delivered_def)
     (simp add: frames_with_eof_def iter_with_done_def env_live_def one_done_last_def
        response_chunk_def error_chunk_def content_chunk_def done_chunk_def)

text \<open>
  C1 as stated fails for ollama. With a context that is never cancelled, a backend
  stream that ends before a response flagged \<open>Done\<close>, \<open>Chat\<close> returning nil, is
  closed with no chunk that has \<open>Done\<close> set. With a context cancelled after the first
  chunk went out, the callback's \<open>select\<close> and the final \<open>select\<close> both take the
  \<open>ctx.Done()\<close> case, and again the channel is closed after one chunk without
  \<open>Done\<close>.
\<close>

theorem stream_terminal_chunk_counterexample:
  "ollama_stream_goroutine env_live [(''Hel'', False)] None = Closed [content_chunk ''Hel'']
   \<and> \<not> one_done_last (delivered Drains
          (ollama_stream_goroutine env_live [(''Hel'', False)] None))
   \<and> ollama_stream_goroutine env_cancelled_after_first [(''Hel'', False), (''lo'', True)] None
     = Closed [content_chunk ''Hel'']
   \<and> \<not> one_done_last (delivered Drains
          (ollama_stream_goroutine env_cancelled_after_first
             [(''Hel'', False), (''lo'', True)] None))"
  by (simp add: ollama_stream_goroutine_def env_cancelled_after_first_def env_live_def
        select_send_def can_send_def response_chunk_def content_chunk_def delivered_def
        one_done_last_def)

text \<open>
  C2 fails for groq, together, samba and gemini, whose sends are plain channel sends: the
  consumer has stopped receiving, ten content chunks fill the buffer, the transport then
  reports the cancellation, and the goroutine is suspended for ever in the send of the
  final chunk; the channel is never closed.
\<close>

theorem unguarded_send_blocks:
  "openai_stream_goroutine (Abandons 0) frames_fill_buffer []
     = Blocked (replicate 10 (content_chunk ''x''))
   \<and> gemini_stream_goroutine (Abandons 0) iter_fill_buffer []
     = Blocked (replicate 10 (content_chunk ''x''))"
  by (simp add: frames_fill_buffer_def iter_fill_buffer_def eval_nat_numeral can_send_def
        capacity_def send_return_def Contains_def sublist_Cons_right)

section \<open>Properties of the session\<close>

lemma receive_chunks_error:
  "\<forall>c\<in>set cs. Error c = None \<Longrightarrow> Error e = Some err
   \<Longrightarrow> receive_chunks (cs @ e # rest) fullResponse tokenCount out
       = (Some (''stream error: '' @ err),
          fullResponse @ concat (map chunk_Content cs),
          tokenCount + sum_list (map (\<lambda>c. length (Fields (chunk_Content c))) cs),
          out @ map (\<lambda>c. Print (chunk_Content c)) cs)"
  by (induction cs arbitrary: fullResponse tokenCount out) simp_all

text \<open>
  C3. When the stream of a turn delivers chunks without error and then a chunk that
  carries an error, \<open>processMessage\<close> returns an error; the message list has gained
  the user message of the turn and nothing else; the text of every chunk received before
  the error went to the output sink, in order; and the loop of \<open>Start\<close> prints the
  error and goes on to its next iteration.
\<close>

theorem mid_stream_error:
  assumes "StreamMessage (turn_request (s\<lparr>messages := messages s @ [user_message clk input]\<rparr>))
             = Inr (cs @ e # rest)"
    and "\<forall>c\<in>set cs. Error c = None"
    and "Error e = Some err"
  shows "processMessage StreamMessage clk s input
           = (Some (''stream error: '' @ err),
              s\<lparr>messages := messages s @ [user_message clk input],
                sink := sink s @ PrintAssistantPrefix (currentModel s)
                          # map (\<lambda>c. Print (chunk_Content c)) cs\<rparr>)
     \<and> Start_process StreamMessage clk s input
           = (NextIteration,
              s\<lparr>messages := messages s @ [user_message clk input],
                sink := sink s @ PrintAssistantPrefix (currentModel s)
                          # map (\<lambda>c. Print (chunk_Content c)) cs
                          @ [PrintError (''stream error: '' @ err)]\<rparr>)"
proof -
  have p: "processMessage StreamMessage clk s input
           = (Some (''stream error: '' @ err),
              s\<lparr>messages := messages s @ [user_message clk input],
                sink := sink s @ PrintAssistantPrefix (currentModel s)
                          # map (\<lambda>c. Print (chunk_Content c)) cs\<rparr>)"
    using assms(1) receive_chunks_error [OF assms(2) assms(3)]
    by (simp add: processMessage_def Let_def)
  then show ?thesis
    by (simp add: Start_process_def)
qed

text \<open>C3 at a stream of two content chunks and an error chunk.\<close>

theorem mid_stream_error_witness:
  "failing_stream
       (turn_request (session_fresh\<lparr>messages := messages session_fresh
                                        @ [user_message clock_sample ''Hello'']\<rparr>))
     = Inr ([content_chunk ''Hel'', content_chunk ''lo''] @ error_chunk ''connection reset'' # [])
   \<and> Error (content_chunk ''Hel'') = None \<and> Error (content_chunk ''lo'') = None
   \<and> Error (error_chunk ''connection reset'') = Some ''connection reset''
   \<and> fst (processMessage failing_stream clock_sample session_fresh ''Hello'')
        = Some ''stream error: connection reset''
   \<and> messages (snd (processMessage failing_stream clock_sample session_fresh ''Hello''))
        = [\<lparr>Role = ''user'', Content = ''Hello'', Timestamp = 100\<rparr>]
   \<and> sink (snd (processMessage failing_stream clock_sample session_fresh ''Hello''))
        = [PrintAssistantPrefix ''llama-3.3-70b-versatile'', Print ''Hel'', Print ''lo'']
   \<and> fst (Start_process failing_stream clock_sample session_fresh ''Hello'') = NextIteration"
  using mid_stream_error
          [where StreamMessage = failing_stream and s = session_fresh and clk = clock_sample
             and input = "''Hello''" and cs = "[content_chunk ''Hel'', content_chunk ''lo'']"
             and e = "error_chunk ''connection reset''" and rest = "[]"
             and err = "''connection reset''"]
  by (simp add: failing_stream_def content_chunk_def error_chunk_def session_fresh_def
        user_message_def clock_sample_def RoleUser_def)

section \<open>Properties of the export\<close>

lemma occur_in_order_Cons_iff:
  "occur_in_order (c # cs) s \<longleftrightarrow> (\<exists>pre post. s = pre @ c @ post \<and> occur_in_order cs post)"
proof
  assume "occur_in_order (c # cs) s"
  then have "\<exists>i\<in>set [0..<Suc (length s)].
               take (length c) (drop i s) = c \<and> occur_in_order cs (drop (i + length c) s)"
    unfolding occur_in_order.simps list_ex_iff .
  then obtain i where i: "take (length c) (drop i s) = c"
      "occur_in_order cs (drop (i + length c) s)"
    by blast
  have e: "drop (length c) (drop i s) = drop (i + length c) s"
    by (simp add: add.commute)
  have "s = take i s @ (take (length c) (drop i s) @ drop (length c) (drop i s))"
    by (simp only: append_take_drop_id)
  then have "s = take i s @ c @ drop (i + length c) s"
    by (simp only: e i(1))
  with i(2) show "\<exists>pre post. s = pre @ c @ post \<and> occur_in_order cs post"
    by blast
next
  assume "\<exists>pre post. s = pre @ c @ post \<and> occur_in_order cs post"
  then obtain pre post where s: "s = pre @ c @ post" and o: "occur_in_order cs post"
    by blast
  have "length pre \<in> set [0..<Suc (length s)]"
    using s by simp
  moreover have "take (length c) (drop (length pre) s) = c"
    using s by simp
  moreover have "drop (length pre + length c) s = post"
    using s by (simp add: add.commute)
  ultimately show "occur_in_order (c # cs) s"
    using o unfolding occur_in_order.simps list_ex_iff by blast
qed

lemma occur_in_order_prepend:
  "occur_in_order cs s \<Longrightarrow> occur_in_order cs (pre @ s)"
proof (cases cs)
  case Nil
  then show ?thesis by simp
next
  case (Cons c cs')
  assume "occur_in_order cs s"
  with Cons have "occur_in_order (c # cs') s"
    by simp
  then obtain p q where "s = p @ c @ q" "occur_in_order cs' q"
    unfolding occur_in_order_Cons_iff by blast
  then have "pre @ s = (pre @ p) @ c @ q \<and> occur_in_order cs' q"
    by simp
  then show ?thesis
    unfolding Cons occur_in_order_Cons_iff by blast
qed

lemma occur_in_order_blocks:
  "occur_in_order (map Content msgs)
     (concat (map (\<lambda>msg. hdr msg @ Content msg @ sep) msgs))"
proof (induction msgs)
  case Nil
  then show ?case by simp
next
  case (Cons m msgs)
  have "occur_in_order (map Content msgs)
          (sep @ concat (map (\<lambda>msg. hdr msg @ Content msg @ sep) msgs))"
    using Cons.IH by (rule occur_in_order_prepend)
  then show ?case
    unfolding list.map concat.simps occur_in_order_Cons_iff
    by (intro exI [of _ "hdr m"] exI [of _ "sep @ concat (map (\<lambda>msg. hdr msg @ Content msg @ sep) msgs)"])
       simp
qed

lemma foldl_builder:
  "foldl (\<lambda>sb msg. sb @ hdr msg @ Content msg @ sep) sb0 msgs
     = sb0 @ concat (map (\<lambda>msg. hdr msg @ Content msg @ sep) msgs)"
  by (induction msgs arbitrary: sb0) simp_all

lemma Contains_block:
  "msg \<in> set msgs
   \<Longrightarrow> Contains (sb0 @ concat (map (\<lambda>msg. hdr msg @ Content msg @ sep) msgs)) (Content msg)"
proof -
  assume "msg \<in> set msgs"
  then obtain xs ys where "msgs = xs @ msg # ys"
    by (auto simp add: in_set_conv_decomp)
  then have "sb0 @ concat (map (\<lambda>msg. hdr msg @ Content msg @ sep) msgs)
      = (sb0 @ concat (map (\<lambda>msg. hdr msg @ Content msg @ sep) xs) @ hdr msg) @ Content msg
        @ (sep @ concat (map (\<lambda>msg. hdr msg @ Content msg @ sep) ys))"
    by simp
  then show ?thesis
    unfolding Contains_def sublist_def by blast
qed

lemma exportMarkdown_shape:
  "\<exists>sb0. exportMarkdown tf conv
     = sb0 @ concat (map (\<lambda>msg. (''## '' @ markdown_role msg @ ''\<newline>\<newline>'')
                              @ Content msg @ ''\<newline>\<newline>'') (conv_Messages conv))"
  unfolding exportMarkdown_def Let_def foldl_builder by blast

lemma exportText_shape:
  "\<exists>sb0. exportText tf conv
     = sb0 @ concat (map (\<lambda>msg. (''['' @ Format tf ''15:04:05'' (Timestamp msg) @ ''] ''
                                   @ text_role msg @ '':\<newline>'')
                              @ Content msg @ ''\<newline>\<newline>'') (conv_Messages conv))"
  unfolding exportText_def Let_def foldl_builder by blast

text \<open>
  C8. The markdown export and the plain-text export of a conversation both contain the
  content of every message verbatim, the contents occurring one after the other in the
  order of the message sequence.
\<close>

theorem export_keeps_contents:
  "occur_in_order (map Content (conv_Messages conv)) (exportMarkdown tf conv)
   \<and> occur_in_order (map Content (conv_Messages conv)) (exportText tf conv)
   \<and> (\<forall>msg\<in>set (conv_Messages conv).
         Contains (exportMarkdown tf conv) (Content msg)
         \<and> Contains (exportText tf conv) (Content msg))"
proof -
  obtain m0 where m: "exportMarkdown tf conv
     = m0 @ concat (map (\<lambda>msg. (''## '' @ markdown_role msg @ ''\<newline>\<newline>'')
                              @ Content msg @ ''\<newline>\<newline>'') (conv_Messages conv))"
    using exportMarkdown_shape by blast
  obtain t0 where t: "exportText tf conv
     = t0 @ concat (map (\<lambda>msg. (''['' @ Format tf ''15:04:05'' (Timestamp msg) @ ''] ''
                                   @ text_role msg @ '':\<newline>'')
                              @ Content msg @ ''\<newline>\<newline>'') (conv_Messages conv))"
    using exportText_shape by blast
  show ?thesis
    unfolding m t
    by (intro conjI ballI occur_in_order_prepend occur_in_order_blocks Contains_block)
qed

text \<open>C8 at a conversation of two messages, with the plain-text export written out.\<close>

theorem export_keeps_contents_witness:
  "exportText tf_stub conv_sample
     = ''Conversation with groq (llama-3.3-70b-versatile)\<newline>''
       @ ''Date: 2006-01-02 15:04:05\<newline>'' @ replicate 60 (CHR ''='') @ ''\<newline>\<newline>''
       @ ''[15:04:05] You:\<newline>Hello\<newline>\<newline>[15:04:05] Assistant:\<newline>Hi there\<newline>\<newline>''
   \<and> occur_in_order [''Hello'', ''Hi there''] (exportText tf_stub conv_sample)
   \<and> occur_in_order [''Hello'', ''Hi there''] (exportMarkdown tf_stub conv_sample)
   \<and> Contains (exportMarkdown tf_stub conv_sample) ''Hi there''"
  using export_keeps_contents [of conv_sample tf_stub]
  by (simp add: conv_sample_def)
     (simp add: exportText_def tf_stub_def text_role_def RoleAssistant_def RoleSystem_def)

section \<open>Properties of the assessment\<close>

lemma graded_fields:
  "Score (graded c s st d sg) = s"
  "MaxScore (graded c s st d sg) = MaxScore c"
  "crit_Name (graded c s st d sg) = crit_Name c"
  by (simp_all add: graded_def)

lemma new_criterion_fields:
  "MaxScore (new_criterion n) = 10"
  "crit_Name (new_criterion n) = n"
  by (simp_all add: new_criterion_def)

lemma checkClarity_scale: "in_scale ''Clarity'' (checkClarity prompt)"
  by (simp add: in_scale_def checkClarity_def Let_def graded_fields new_criterion_fields)

lemma checkRelevance_scale: "in_scale ''Relevance'' (checkRelevance lower prompt)"
  by (simp add: in_scale_def checkRelevance_def Let_def graded_fields new_criterion_fields)

lemma checkSpecificity_scale: "in_scale ''Specificity'' (checkSpecificity lower prompt)"
  by (simp add: in_scale_def checkSpecificity_def Let_def graded_fields new_criterion_fields)

lemma checkContext_scale: "in_scale ''Context'' (checkContext lower prompt)"
  by (simp add: in_scale_def checkContext_def Let_def graded_fields new_criterion_fields)

lemma checkStructure_scale: "in_scale ''Structure'' (checkStructure prompt)"
  by (simp add: in_scale_def checkStructure_def Let_def graded_fields new_criterion_fields)

lemma checkConstraints_scale: "in_scale ''Constraints'' (checkConstraints lower prompt)"
  by (simp add: in_scale_def checkConstraints_def Let_def graded_fields new_criterion_fields)

lemma checkOutputFormat_scale: "in_scale ''Output Format'' (checkOutputFormat lower prompt)"
  by (simp add: in_scale_def checkOutputFormat_def Let_def graded_fields new_criterion_fields)

lemma checkRole_scale: "in_scale ''Role/Persona'' (checkRole lower prompt)"
  by (simp add: in_scale_def checkRole_def Let_def graded_fields new_criterion_fields)

lemma checkExamples_scale: "in_scale ''Examples'' (checkExamples lower prompt)"
  by (simp add: in_scale_def checkExamples_def Let_def graded_fields new_criterion_fields)

lemma score_totals_sums:
  "foldl (\<lambda>(totalScore, maxScore, totalIssues) criterion.
              (totalScore + Score criterion, maxScore + MaxScore criterion,
               if Score criterion < 4 then totalIssues + 1 else totalIssues))
       (t, m, n) criteria
   = (t + sum_list (map Score criteria), m + sum_list (map MaxScore criteria),
      n + int (length (filter (\<lambda>c. Score c < 4) criteria)))"
  by (induction criteria arbitrary: t m n) simp_all

lemma run_checks_scale:
  "list_all2 in_scale
     [''Clarity'', ''Relevance'', ''Specificity'', ''Context'', ''Structure'', ''Constraints'',
      ''Output Format'', ''Role/Persona'', ''Examples'']
     (run_checks lower prompt)"
  by (simp add: run_checks_def checkClarity_scale checkRelevance_scale checkSpecificity_scale
        checkContext_scale checkStructure_scale checkConstraints_scale checkOutputFormat_scale
        checkRole_scale checkExamples_scale)

lemma in_scale_sums:
  "list_all2 in_scale names cs
   \<Longrightarrow> sum_list (map MaxScore cs) = 10 * int (length cs)
     \<and> int (length cs) \<le> sum_list (map Score cs)
     \<and> sum_list (map Score cs) \<le> sum_list (map MaxScore cs)"
  by (induction names cs rule: list_all2_induct) (auto simp add: in_scale_def)

text \<open>
  C9. For every text, \<open>Analyze\<close> returns an assessment (the division never panics)
  with the nine named criteria, each with a score from 1 to 10 that does not exceed its
  maximum; the overall score is the sum of the scores times 100 divided by the sum of
  the maxima, and lies between 0 and 100. \<open>Analyze\<close> reads nothing but the text (and
  the case tables of the library), so equal texts give equal assessments.
\<close>

theorem Analyze_scores:
  "\<exists>a. Analyze unicodeLower prompt = Some a
     \<and> length (Criteria a) = 9
     \<and> map crit_Name (Criteria a)
         = [''Clarity'', ''Relevance'', ''Specificity'', ''Context'', ''Structure'',
            ''Constraints'', ''Output Format'', ''Role/Persona'', ''Examples'']
     \<and> (\<forall>c\<in>set (Criteria a). 1 \<le> Score c \<and> Score c \<le> 10 \<and> Score c \<le> MaxScore c)
     \<and> OverallScore a
         = (sum_list (map Score (Criteria a)) * 100) div sum_list (map MaxScore (Criteria a))
     \<and> 0 \<le> OverallScore a \<and> OverallScore a \<le> 100"
proof -
  define cs where "cs = run_checks unicodeLower prompt"
  define names where "names = [''Clarity'', ''Relevance'', ''Specificity'', ''Context'',
     ''Structure'', ''Constraints'', ''Output Format'', ''Role/Persona'', ''Examples'']"
  have sc: "list_all2 in_scale names cs"
    unfolding cs_def names_def by (rule run_checks_scale)
  have len: "length cs = 9"
    using list_all2_lengthD [OF sc] by (simp add: names_def)
  have nm: "map crit_Name cs = names"
    using sc by (induction names cs rule: list_all2_induct) (simp_all add: in_scale_def)
  have each: "\<forall>c\<in>set cs. 1 \<le> Score c \<and> Score c \<le> 10 \<and> Score c \<le> MaxScore c"
    using sc by (induction names cs rule: list_all2_induct) (simp_all add: in_scale_def)
  have m: "sum_list (map MaxScore cs) = 90"
    using in_scale_sums [OF sc] len by simp
  have lo: "9 \<le> sum_list (map Score cs)" and hi: "sum_list (map Score cs) \<le> 90"
    using in_scale_sums [OF sc] len m by simp_all
  have tot: "score_totals cs
     = (sum_list (map Score cs), 90, int (length (filter (\<lambda>c. Score c < 4) cs)))"
    unfolding score_totals_def score_totals_sums using m by simp
  have q: "int_quo (sum_list (map Score cs) * 100) 90 = Some ((sum_list (map Score cs) * 100) div 90)"
    using lo by (simp add: int_quo_def sgn_if)
  have b: "0 \<le> (sum_list (map Score cs) * 100) div 90" "(sum_list (map Score cs) * 100) div 90 \<le> 100"
    using lo hi by simp_all
  show ?thesis
    using len nm each m q b
    by (simp add: Analyze_def Let_def tot names_def flip: cs_def)
qed

lemma prompt_short_scores:
  "map Score (run_checks (\<lambda>s. s) prompt_short) = [7, 5, 5, 5, 5, 5, 2, 2, 8]"
  by code_simp

text \<open>C9 at a prompt of sixteen words.\<close>

theorem Analyze_scores_witness:
  "Analyze (\<lambda>s. s) prompt_short \<noteq> None
   \<and> map Score (Criteria (the (Analyze (\<lambda>s. s) prompt_short))) = [7, 5, 5, 5, 5, 5, 2, 2, 8]
   \<and> map MaxScore (Criteria (the (Analyze (\<lambda>s. s) prompt_short)))
       = [10, 10, 10, 10, 10, 10, 10, 10, 10]
   \<and> OverallScore (the (Analyze (\<lambda>s. s) prompt_short)) = 48"
proof -
  from Analyze_scores [of "\<lambda>s. s" prompt_short] obtain a
    where all: "Analyze (\<lambda>s. s) prompt_short = Some a
     \<and> length (Criteria a) = 9
     \<and> map crit_Name (Criteria a)
         = [''Clarity'', ''Relevance'', ''Specificity'', ''Context'', ''Structure'',
            ''Constraints'', ''Output Format'', ''Role/Persona'', ''Examples'']
     \<and> (\<forall>c\<in>set (Criteria a). 1 \<le> Score c \<and> Score c \<le> 10 \<and> Score c \<le> MaxScore c)
     \<and> OverallScore a
         = (sum_list (map Score (Criteria a)) * 100) div sum_list (map MaxScore (Criteria a))
     \<and> 0 \<le> OverallScore a \<and> OverallScore a \<le> 100" ..
  from all have a: "Analyze (\<lambda>s. s) prompt_short = Some a"
    by (rule conjunct1)
  from all have overall: "OverallScore a
         = (sum_list (map Score (Criteria a)) * 100) div sum_list (map MaxScore (Criteria a))"
    by (elim conjE)
  have c: "Criteria a = run_checks (\<lambda>s. s) prompt_short"
    using a by (auto simp add: Analyze_def Let_def split: option.splits)
  have m: "map MaxScore (Criteria a) = [10, 10, 10, 10, 10, 10, 10, 10, 10]"
    using run_checks_scale [of "\<lambda>s. s" prompt_short]
    by (simp add: c run_checks_def in_scale_def)
  have "OverallScore a = 48"
    unfolding overall m by (simp add: c prompt_short_scores)
  then show ?thesis
    using a c m prompt_short_scores by simp
qed

section \<open>Properties of the shell mode output\<close>

lemma ReplaceAll_twice:
  "ReplaceAll (ReplaceAll s quote [backslash, quote]) (CHR 0x0A) [backslash, CHR ''n'']
     = concat (map json_escape s)"
  by (induction s) (simp_all add: ReplaceAll_def json_escape_def quote_def backslash_def)

lemma json_string_escaped:
  "\<forall>c\<in>set content. c \<noteq> backslash \<and> (32 \<le> (of_char c :: nat) \<or> c = CHR 0x0A)
   \<Longrightarrow> json_string acc (concat (map json_escape content) @ quote # rest)
       = Inr (acc @ content, rest)"
proof (induction content arbitrary: acc)
  case Nil
  show ?case by (cases rest) simp_all
next
  case (Cons c content)
  define tail where "tail = concat (map json_escape content) @ quote # rest"
  obtain e s where es: "tail = e # s"
    unfolding tail_def by (cases "concat (map json_escape content) @ quote # rest") simp_all
  have ih: "json_string (acc @ [c]) tail = Inr (acc @ c # content, rest)"
    using Cons.IH [of "acc @ [c]"] Cons.prems unfolding tail_def by simp
  have goal: "concat (map json_escape (c # content)) @ quote # rest = json_escape c @ tail"
    unfolding tail_def by simp
  consider "c = quote" | "c = CHR 0x0A" | "c \<noteq> quote" "c \<noteq> CHR 0x0A" by blast
  then show ?case
  proof cases
    case 1
    then have "json_escape c = [backslash, quote]"
      by (simp add: json_escape_def)
    then show ?thesis
      unfolding goal using ih 1 by (simp add: quote_def backslash_def)
  next
    case 2
    then have "json_escape c = [backslash, CHR ''n'']"
      by (simp add: json_escape_def quote_def)
    then show ?thesis
      unfolding goal using ih 2 by (simp add: quote_def backslash_def)
  next
    case 3
    then have "json_escape c = [c]"
      by (simp add: json_escape_def)
    moreover have "c \<noteq> backslash" "\<not> (of_char c :: nat) < 32"
      using Cons.prems 3 by auto
    ultimately show ?thesis
      unfolding goal using ih 3 es by simp
  qed
qed

text \<open>
  Where the content has no backslash and no control character but the line feed, the JSON
  output reads back as the content.
\<close>

lemma FormatOutput_json_plain:
  assumes "OutputFormat cfg = ''json''"
    and "\<forall>c\<in>set content. c \<noteq> backslash \<and> (32 \<le> (of_char c :: nat) \<or> c = CHR 0x0A)"
  shows "decode_response (FormatOutput cfg content) = Inr content"
proof -
  have "FormatOutput cfg content
          = response_header @ concat (map json_escape content) @ quote # ''}''"
    using assms(1) by (simp add: FormatOutput_def Let_def ReplaceAll_twice response_header_def)
  then show ?thesis
    using json_string_escaped [OF assms(2), of "[]" "''}''"]
    by (simp add: decode_response_def)
qed

text \<open>
  With the format \<open>raw\<close>, and with any format but json and markdown, the content is
  returned unchanged.
\<close>

lemma FormatOutput_verbatim:
  "OutputFormat cfg \<noteq> ''json'' \<Longrightarrow> OutputFormat cfg \<noteq> ''markdown''
   \<Longrightarrow> FormatOutput cfg content = content"
  by (simp add: FormatOutput_def)

text \<open>
  C10 fails on the code: a backslash in the content is copied unescaped. For the content
  of one backslash the output is the text \<open>{"response": "\"}\<close>, in which the
  backslash escapes the closing quote, so it is not a JSON text. For the content of a
  backslash and the letter n the output is a JSON text whose value is a line feed, not
  the content.
\<close>

theorem json_output_backslash:
  "FormatOutput cfg_json [backslash]
     = ''{'' @ [quote] @ ''response'' @ [quote] @ '': '' @ [quote, backslash, quote] @ ''}''
   \<and> decode_response (FormatOutput cfg_json [backslash]) = Inl Malformed
   \<and> FormatOutput cfg_json [backslash, CHR ''n'']
     = ''{'' @ [quote] @ ''response'' @ [quote] @ '': '' @ [quote, backslash, CHR ''n'', quote] @ ''}''
   \<and> decode_response (FormatOutput cfg_json [backslash, CHR ''n'']) = Inr [CHR 0x0A]"
  by (simp add: FormatOutput_def cfg_json_def ReplaceAll_def Let_def decode_response_def
        response_header_def quote_def backslash_def)


end
